theory Spec2Isabelle
  imports Complex_Main "HOL-Library.Sublist" "HOL-Library.AList"
begin

section \<open>Strings and the URL parser\<close>

text \<open>
  The classifier reads \<^verbatim>\<open>new URL(url).hostname.toLowerCase()\<close> and tests the result with
  \<^verbatim>\<open>String.prototype.includes\<close>. The URL parser is the platform's, not the repository's:
  it is a parameter of the model, a function that yields the hostname of a string that
  parses and \<open>None\<close> for a string on which the constructor throws. The hostname of a parsed
  URL is ASCII, so lower-casing is the ASCII one.
\<close>

type_synonym URL_hostname = "string \<Rightarrow> string option"

definition toLowerCase_char :: "char \<Rightarrow> char" where
  "toLowerCase_char c =
     (let n = (of_char c :: nat) in if 65 \<le> n \<and> n \<le> 90 then char_of (n + 32) else c)"

definition toLowerCase :: "string \<Rightarrow> string" where
  "toLowerCase s = map toLowerCase_char s"

text \<open>\<^verbatim>\<open>haystack.includes(needle)\<close>: the needle occurs as a contiguous run.\<close>

fun str_includes :: "string \<Rightarrow> string \<Rightarrow> bool" where
  "str_includes [] needle = (needle = [])"
| "str_includes (c # cs) needle = (prefix needle (c # cs) \<or> str_includes cs needle)"

text \<open>\<^verbatim>\<open>!s\<close> on an optional string: true for \<^verbatim>\<open>undefined\<close> and for the empty string.\<close>

definition falsy :: "string option \<Rightarrow> bool" where
  "falsy s = (case s of None \<Rightarrow> True | Some v \<Rightarrow> v = [])"

section \<open>The classifier\<close>

datatype WebsiteType = none | facebook | yelp | other | legitimate

definition FACEBOOK_DOMAINS :: "string list" where
  "FACEBOOK_DOMAINS = [''facebook.com'', ''fb.com'']"

definition YELP_DOMAINS :: "string list" where
  "YELP_DOMAINS = [''yelp.com'']"

definition PLATFORM_DOMAINS :: "string list" where
  "PLATFORM_DOMAINS =
     [''yelp.com'', ''facebook.com'', ''fb.com'', ''instagram.com'', ''linkedin.com'',
      ''shopify.com'', ''wix.com'', ''squarespace.com'', ''weebly.com'', ''wordpress.com'',
      ''godaddy.com'',
      ''doordash.com'', ''ubereats.com'', ''grubhub.com'', ''opentable.com'', ''booksy.com'',
      ''vagaro.com'',
      ''yellowpages.com'', ''manta.com'', ''bbb.org'', ''tripadvisor.com'']"

definition determineWebsiteType :: "URL_hostname \<Rightarrow> string option \<Rightarrow> WebsiteType" where
  "determineWebsiteType hostname_of url =
     (if falsy url then none
      else case hostname_of (the url) of
             None \<Rightarrow> none
           | Some hostname \<Rightarrow>
               (let domain = toLowerCase hostname in
                if list_ex (\<lambda>fb. str_includes domain fb) FACEBOOK_DOMAINS then facebook
                else if list_ex (\<lambda>yelp. str_includes domain yelp) YELP_DOMAINS then yelp
                else if list_ex (\<lambda>platform. str_includes domain platform) PLATFORM_DOMAINS then other
                else legitimate))"

subsection \<open>Raw places and businesses\<close>

text \<open>
  \<open>Location\<close> is the repository's pair of coordinates; the vendor's \<^verbatim>\<open>LatLng\<close> object, read
  through \<^verbatim>\<open>lat()\<close> and \<^verbatim>\<open>lng()\<close>, carries the same two numbers. Every field of a raw place
  is optional, as in the vendor's \<^verbatim>\<open>PlaceResult\<close>. A timestamp is a number of milliseconds.
\<close>

record Location =
  lat :: real
  lng :: real

type_synonym LatLng = Location

type_synonym Date = nat

record PlaceGeometry =
  geometry_location :: "LatLng option"

record PlacePhoto =
  height :: nat
  width :: nat

record PlaceResult =
  place_id :: "string option"
  name :: "string option"
  formatted_address :: "string option"
  geometry :: "PlaceGeometry option"
  website :: "string option"
  url :: "string option"
  types :: "string list option"
  formatted_phone_number :: "string option"
  business_status :: "string option"
  photos :: "PlacePhoto list option"

record SocialProfiles =
  profile_facebook :: "string option"
  profile_yelp :: "string option"
  profile_instagram :: "string option"
  profile_other :: "string list option"

record Improvements =
  needsPhone :: bool
  needsPhotos :: bool
  needsSocialMedia :: bool
  needsWebsite :: bool

text \<open>
  The fields \<open>id\<close>, \<open>name\<close> and \<open>location\<close> of the source's \<^verbatim>\<open>Business\<close> carry the prefix
  \<open>business_\<close> here. The non-null assertions of \<^verbatim>\<open>place.place_id!\<close>, \<^verbatim>\<open>place.name!\<close> and
  \<^verbatim>\<open>place.formatted_address!\<close> are erased at run time, so the three fields hold whatever
  the raw place holds. \<open>businessStatus\<close> is \<open>None\<close> for the \<^verbatim>\<open>undefined\<close> member of the
  \<^verbatim>\<open>BusinessStatus\<close> type; the cast from the vendor's string is unchecked, so a present
  status is any string.
\<close>

record Business =
  business_id :: "string option"
  business_name :: "string option"
  address :: "string option"
  business_location :: Location
  category :: "string list"
  websiteType :: WebsiteType
  websiteUrl :: "string option"
  socialProfiles :: SocialProfiles
  phoneNumber :: "string option"
  lastUpdated :: Date
  searchQuery :: string
  businessStatus :: "string option"
  improvements :: Improvements

datatype GeocoderStatus =
  Geocoder_OK | Geocoder_ZERO_RESULTS | Geocoder_ERROR | Geocoder_INVALID_REQUEST
| Geocoder_OVER_QUERY_LIMIT | Geocoder_REQUEST_DENIED | Geocoder_UNKNOWN_ERROR

datatype PlacesServiceStatus =
  OK | ZERO_RESULTS | INVALID_REQUEST | NOT_FOUND
| OVER_QUERY_LIMIT | REQUEST_DENIED | UNKNOWN_ERROR

text \<open>
  What the code throws or rejects with: the three \<^verbatim>\<open>new Error(...)\<close> of the promise wrappers,
  and the \<^verbatim>\<open>TypeError\<close> of reading a property of \<^verbatim>\<open>undefined\<close>.
\<close>

datatype error =
  GeocodingFailed GeocoderStatus
| PlacesSearchFailed PlacesServiceStatus
| PlaceDetailsFailed PlacesServiceStatus
| TypeError

subsection \<open>extractSocialProfiles\<close>

definition noProfiles :: SocialProfiles where
  "noProfiles =
     \<lparr>profile_facebook = None, profile_yelp = None, profile_instagram = None,
      profile_other = None\<rparr>"

definition addProfile :: "URL_hostname \<Rightarrow> SocialProfiles \<Rightarrow> string \<Rightarrow> SocialProfiles" where
  "addProfile hostname_of profiles u =
     (case hostname_of u of
        None \<Rightarrow> profiles
      | Some hostname \<Rightarrow>
          (let domain = toLowerCase hostname in
           if list_ex (\<lambda>fb. str_includes domain fb) FACEBOOK_DOMAINS
           then profiles\<lparr>profile_facebook := Some u\<rparr>
           else if list_ex (\<lambda>yelp. str_includes domain yelp) YELP_DOMAINS
           then profiles\<lparr>profile_yelp := Some u\<rparr>
           else if str_includes domain ''instagram.com''
           then profiles\<lparr>profile_instagram := Some u\<rparr>
           else profiles\<lparr>profile_other :=
                  Some ((case profile_other profiles of None \<Rightarrow> [] | Some os \<Rightarrow> os) @ [u])\<rparr>))"

definition extractSocialProfiles :: "URL_hostname \<Rightarrow> string list \<Rightarrow> SocialProfiles" where
  "extractSocialProfiles hostname_of urls = foldl (addProfile hostname_of) noProfiles urls"

subsection \<open>mapPlaceToBusiness\<close>

definition genericCategories :: "string list" where
  "genericCategories =
     [''point_of_interest'', ''establishment'', ''business'', ''place'', ''premise'', ''store'',
      ''local_business'', ''general_contractor'', ''political'', ''geocode'', ''route'',
      ''street_address'', ''intersection'', ''street_number'', ''subpremise'', ''postal_code'',
      ''natural_feature'', ''floor'', ''room'', ''postal_town'', ''neighborhood'', ''locality'',
      ''administrative_area_level_1'', ''administrative_area_level_2'',
      ''administrative_area_level_3'', ''administrative_area_level_4'',
      ''administrative_area_level_5'', ''country'', ''sublocality'', ''sublocality_level_1'',
      ''sublocality_level_2'', ''sublocality_level_3'', ''sublocality_level_4'',
      ''sublocality_level_5'']"

text \<open>\<^verbatim>\<open>xs.includes(x)\<close> on an array of strings.\<close>

definition array_includes :: "'a list \<Rightarrow> 'a \<Rightarrow> bool" where
  "array_includes xs x = list_ex (\<lambda>y. y = x) xs"

text \<open>
  The expression bound to \<^verbatim>\<open>filteredCategories\<close>:
  \<^verbatim>\<open>place.types?.filter((type) => !genericCategories.includes(type)) || []\<close>.
\<close>

definition filterCategories :: "string list option \<Rightarrow> string list" where
  "filterCategories rawTypes =
     (case rawTypes of
        None \<Rightarrow> []
      | Some ts \<Rightarrow> filter (\<lambda>type. \<not> array_includes genericCategories type) ts)"

text \<open>The object literal bound to \<^verbatim>\<open>improvements\<close>.\<close>

definition computeImprovements :: "PlaceResult \<Rightarrow> WebsiteType \<Rightarrow> Improvements" where
  "computeImprovements place wt =
     \<lparr>needsPhone = falsy (formatted_phone_number place),
      needsPhotos = (case photos place of None \<Rightarrow> True | Some ps \<Rightarrow> length ps < 3),
      needsSocialMedia = False,
      needsWebsite = (wt \<noteq> legitimate)\<rparr>"

text \<open>
  The clock read by \<^verbatim>\<open>new Date()\<close> is the argument \<open>now\<close>. The only failure is the
  \<^verbatim>\<open>TypeError\<close> of \<^verbatim>\<open>place.geometry!.location!.lat()\<close> on a place without geometry or
  without a location. Console output is not modelled.
\<close>

definition mapPlaceToBusiness ::
  "URL_hostname \<Rightarrow> Date \<Rightarrow> PlaceResult \<Rightarrow> string \<Rightarrow> error + Business" where
  "mapPlaceToBusiness hostname_of now place query =
     (let wt = determineWebsiteType hostname_of (website place);
          profiles = extractSocialProfiles hostname_of
                       (if falsy (url place) then [] else [the (url place)]);
          status = (if falsy (business_status place) then ''OPERATIONAL''
                    else the (business_status place));
          flags = computeImprovements place wt;
          filteredCategories = filterCategories (types place)
      in case geometry place of
           None \<Rightarrow> Inl TypeError
         | Some g \<Rightarrow>
             (case geometry_location g of
                None \<Rightarrow> Inl TypeError
              | Some l \<Rightarrow>
                  Inr \<lparr>business_id = place_id place,
                       business_name = name place,
                       address = formatted_address place,
                       business_location = \<lparr>lat = lat l, lng = lng l\<rparr>,
                       category = filteredCategories,
                       websiteType = wt,
                       websiteUrl = website place,
                       socialProfiles = profiles,
                       phoneNumber = formatted_phone_number place,
                       lastUpdated = now,
                       searchQuery = query,
                       businessStatus = Some status,
                       improvements = flags\<rparr>))"

section \<open>The aggregator\<close>

subsection \<open>Search parameters, requests and the external services\<close>

text \<open>
  The numbers \<^verbatim>\<open>limit\<close> and \<^verbatim>\<open>skip\<close> are counts and are integers here; \<^verbatim>\<open>radius\<close> is halved
  by the code and is a real number. The fields \<^verbatim>\<open>location\<close> and \<^verbatim>\<open>websiteType\<close> of the
  source's \<^verbatim>\<open>SearchParameters\<close> are \<open>search_location\<close> and \<open>websiteType_filter\<close> here;
  \<^verbatim>\<open>sortBy\<close> is never read. The result literal of \<^verbatim>\<open>searchBusinesses\<close> sets three fields.
\<close>

record SearchParameters =
  search_location :: string
  radius :: real
  categories :: "string list option"
  excludeWebsiteTypes :: "WebsiteType list option"
  websiteType_filter :: "WebsiteType option"
  limit :: "int option"
  skip :: "int option"

record SearchResult =
  businesses :: "Business list"
  totalCount :: int
  hasMore :: bool

record GeocoderResult =
  result_location :: LatLng

record PlaceSearchRequest =
  req_location :: LatLng
  req_radius :: real
  req_type :: "string option"
  req_keyword :: "string option"

record PlaceDetailsRequest =
  placeId :: string
  request_fields :: "string list"

text \<open>
  The three vendor operations answer through a callback with a result, or \<^verbatim>\<open>null\<close>, and a
  status. Within one search every request differs from the others, so each service is a
  function of its request.
\<close>

type_synonym Geocoder = "string \<Rightarrow> GeocoderResult list option \<times> GeocoderStatus"

type_synonym NearbySearch =
  "PlaceSearchRequest \<Rightarrow> PlaceResult list option \<times> PlacesServiceStatus"

type_synonym GetDetails = "PlaceDetailsRequest \<Rightarrow> PlaceResult option \<times> PlacesServiceStatus"

text \<open>The promise wrappers: \<open>Inr\<close> for \<^verbatim>\<open>resolve\<close>, \<open>Inl\<close> for \<^verbatim>\<open>reject\<close>.\<close>

definition geocode_promise :: "Geocoder \<Rightarrow> string \<Rightarrow> error + GeocoderResult list" where
  "geocode_promise geocode addr =
     (let (results, status) = geocode addr in
      if status = Geocoder_OK \<and> results \<noteq> None then Inr (the results)
      else Inl (GeocodingFailed status))"

definition nearbySearch_promise ::
  "NearbySearch \<Rightarrow> PlaceSearchRequest \<Rightarrow> error + PlaceResult list" where
  "nearbySearch_promise nearbySearch request =
     (let (results, status) = nearbySearch request in
      if status = OK \<and> results \<noteq> None then Inr (the results)
      else if status = ZERO_RESULTS then Inr []
      else Inl (PlacesSearchFailed status))"

definition detailFields :: "string list" where
  "detailFields =
     [''name'', ''formatted_address'', ''geometry'', ''website'', ''url'',
      ''formatted_phone_number'', ''types'', ''business_status'', ''photos'']"

definition getDetails_promise :: "GetDetails \<Rightarrow> string \<Rightarrow> error + PlaceResult" where
  "getDetails_promise getDetails pid =
     (let (result, status) = getDetails \<lparr>placeId = pid, request_fields = detailFields\<rparr> in
      if status = OK \<and> result \<noteq> None then Inr (the result)
      else Inl (PlaceDetailsFailed status))"

subsection \<open>Radius tiers and the search request\<close>

definition searchRadii :: "real \<Rightarrow> real list" where
  "searchRadii r =
     (if r \<le> 2000 then [r]
      else if r \<le> 10000 then [min 2000 (r / 2), r]
      else [2000, 5000, 10000, r])"

text \<open>\<^verbatim>\<open>xs.join(sep)\<close> on an array of strings.\<close>

fun join :: "string \<Rightarrow> string list \<Rightarrow> string" where
  "join sep [] = []"
| "join sep [x] = x"
| "join sep (x # y # ys) = x @ sep @ join sep (y # ys)"

definition searchRequest :: "LatLng \<Rightarrow> real \<Rightarrow> string list option \<Rightarrow> PlaceSearchRequest" where
  "searchRequest searchLocation searchRadius cats =
     (let request_type =
            (if cats \<noteq> None \<and> length (the cats) = 1 then Some (hd (the cats)) else None)
      in \<lparr>req_location = searchLocation,
          req_radius = searchRadius,
          req_type = request_type,
          req_keyword =
            (if falsy request_type \<and> cats \<noteq> None \<and> length (the cats) > 0
             then Some (join '' '' (the cats)) else None)\<rparr>)"

subsection \<open>The map of places and the two loops\<close>

text \<open>
  A \<^verbatim>\<open>Map\<close> iterates in insertion order: it is an association list, \<^verbatim>\<open>has\<close> looks a key up
  and \<^verbatim>\<open>set\<close> replaces the value of a key in place or appends a new entry.
\<close>

type_synonym PlaceMap = "(string \<times> PlaceResult) list"

definition Map_has :: "PlaceMap \<Rightarrow> string \<Rightarrow> bool" where
  "Map_has m k = (map_of m k \<noteq> None)"

definition Map_set :: "PlaceMap \<Rightarrow> string \<Rightarrow> PlaceResult \<Rightarrow> PlaceMap" where
  "Map_set m k v = AList.update k v m"

definition Map_size :: "PlaceMap \<Rightarrow> int" where
  "Map_size m = int (length m)"

text \<open>The inner loop over the results of one tier.\<close>

fun addPlaces :: "PlaceMap \<Rightarrow> PlaceResult list \<Rightarrow> PlaceMap" where
  "addPlaces allPlaces [] = allPlaces"
| "addPlaces allPlaces (place # rest) =
     (if \<not> falsy (place_id place) \<and> \<not> Map_has allPlaces (the (place_id place))
      then addPlaces (Map_set allPlaces (the (place_id place)) place) rest
      else addPlaces allPlaces rest)"

text \<open>
  The loop over the radii, on the pair of \<^verbatim>\<open>allPlaces\<close> and the local \<^verbatim>\<open>totalCount\<close>. A
  rejected search is caught inside the loop body and leaves the pair as it is.
\<close>

fun tierLoop ::
  "NearbySearch \<Rightarrow> LatLng \<Rightarrow> string list option \<Rightarrow> int \<Rightarrow> real list \<Rightarrow>
   PlaceMap \<times> int \<Rightarrow> PlaceMap \<times> int" where
  "tierLoop nearbySearch searchLocation cats targetResults [] st = st"
| "tierLoop nearbySearch searchLocation cats targetResults (searchRadius # rest) st =
     (if Map_size (fst st) \<ge> targetResults then st
      else case nearbySearch_promise nearbySearch
                  (searchRequest searchLocation searchRadius cats) of
             Inr results \<Rightarrow>
               tierLoop nearbySearch searchLocation cats targetResults rest
                 (addPlaces (fst st) results, snd st + int (length results))
           | Inl e \<Rightarrow> tierLoop nearbySearch searchLocation cats targetResults rest st)"

text \<open>The loop over the entries of the map; a rejected detail request is caught.\<close>

fun detailLoop ::
  "GetDetails \<Rightarrow> int \<Rightarrow> PlaceMap \<Rightarrow> PlaceResult list \<Rightarrow> PlaceResult list" where
  "detailLoop getDetails targetResults [] detailedPlaces = detailedPlaces"
| "detailLoop getDetails targetResults ((pid, basicPlace) # rest) detailedPlaces =
     (if int (length detailedPlaces) \<ge> targetResults then detailedPlaces
      else case getDetails_promise getDetails pid of
             Inr detailedPlace \<Rightarrow>
               detailLoop getDetails targetResults rest (detailedPlaces @ [detailedPlace])
           | Inl e \<Rightarrow> detailLoop getDetails targetResults rest detailedPlaces)"

subsection \<open>Classification, filtering and pagination\<close>

text \<open>
  \<^verbatim>\<open>detailedPlaces.map(...)\<close>: the first place that makes \<open>mapPlaceToBusiness\<close> throw ends
  the call. The clock is read once for each place, \<open>clock i\<close> for the place at index \<open>i\<close>.
\<close>

fun mapPlaces ::
  "URL_hostname \<Rightarrow> (nat \<Rightarrow> Date) \<Rightarrow> string \<Rightarrow> nat \<Rightarrow> PlaceResult list \<Rightarrow>
   error + Business list" where
  "mapPlaces hostname_of clock query i [] = Inr []"
| "mapPlaces hostname_of clock query i (place # rest) =
     (case mapPlaceToBusiness hostname_of (clock i) place query of
        Inl e \<Rightarrow> Inl e
      | Inr business \<Rightarrow>
          (case mapPlaces hostname_of clock query (Suc i) rest of
             Inl e \<Rightarrow> Inl e
           | Inr bs \<Rightarrow> Inr (business # bs)))"

text \<open>The callback of \<^verbatim>\<open>.filter(...)\<close>.\<close>

definition business_filter :: "SearchParameters \<Rightarrow> Business \<Rightarrow> bool" where
  "business_filter params business =
     (if businessStatus business = Some ''PERMANENTLY_CLOSED'' then False
      else if websiteType_filter params \<noteq> None
      then websiteType business = the (websiteType_filter params)
      else if excludeWebsiteTypes params \<noteq> None \<and> length (the (excludeWebsiteTypes params)) > 0
      then \<not> array_includes (the (excludeWebsiteTypes params)) (websiteType business)
      else True)"

text \<open>\<^verbatim>\<open>xs.slice(start, stop)\<close> on integer arguments; a negative index counts from the end.\<close>

definition slice :: "'a list \<Rightarrow> int \<Rightarrow> int \<Rightarrow> 'a list" where
  "slice xs start stop =
     (let len = int (length xs);
          k = (if start < 0 then max (len + start) 0 else min start len);
          final = (if stop < 0 then max (len + stop) 0 else min stop len)
      in take (nat (final - k)) (drop (nat k) xs))"

subsection \<open>searchBusinesses\<close>

text \<open>The accumulated map and the detailed list, as the two loops leave them.\<close>

definition allPlaces_of ::
  "NearbySearch \<Rightarrow> LatLng \<Rightarrow> SearchParameters \<Rightarrow> int \<Rightarrow> PlaceMap" where
  "allPlaces_of nearbySearch searchLocation params targetResults =
     fst (tierLoop nearbySearch searchLocation (categories params) targetResults
            (searchRadii (radius params)) ([], 0))"

text \<open>The defaults of the destructured parameters: \<^verbatim>\<open>limit = 20\<close>, \<^verbatim>\<open>skip = 0\<close>.\<close>

definition limit_of :: "SearchParameters \<Rightarrow> int" where
  "limit_of params = (case limit params of None \<Rightarrow> 20 | Some n \<Rightarrow> n)"

definition skip_of :: "SearchParameters \<Rightarrow> int" where
  "skip_of params = (case skip params of None \<Rightarrow> 0 | Some n \<Rightarrow> n)"

text \<open>
  \<open>searchBusinesses\<close> in two parts. The first runs from the geocoding to the filter and
  yields \<^verbatim>\<open>allPlaces\<close> and the filtered \<^verbatim>\<open>businesses\<close>; the second is the pagination and
  the result literal.
\<close>

definition filteredBusinesses ::
  "URL_hostname \<Rightarrow> (nat \<Rightarrow> Date) \<Rightarrow> Geocoder \<Rightarrow> NearbySearch \<Rightarrow> GetDetails \<Rightarrow>
   SearchParameters \<Rightarrow> error + PlaceMap \<times> Business list" where
  "filteredBusinesses hostname_of clock geocode nearbySearch getDetails params =
     (let targetResults = limit_of params * 3
      in case geocode_promise geocode (search_location params) of
           Inl e \<Rightarrow> Inl e
         | Inr [] \<Rightarrow> Inl TypeError
         | Inr (first # others) \<Rightarrow>
             (let searchLocation = result_location first;
                  allPlaces = allPlaces_of nearbySearch searchLocation params targetResults;
                  detailedPlaces = detailLoop getDetails targetResults allPlaces []
              in case mapPlaces hostname_of clock (search_location params) 0 detailedPlaces of
                   Inl e \<Rightarrow> Inl e
                 | Inr mapped \<Rightarrow> Inr (allPlaces, filter (business_filter params) mapped)))"

definition searchBusinesses ::
  "URL_hostname \<Rightarrow> (nat \<Rightarrow> Date) \<Rightarrow> Geocoder \<Rightarrow> NearbySearch \<Rightarrow> GetDetails \<Rightarrow>
   SearchParameters \<Rightarrow> error + SearchResult" where
  "searchBusinesses hostname_of clock geocode nearbySearch getDetails params =
     (let lim = limit_of params;
          skp = skip_of params
      in case filteredBusinesses hostname_of clock geocode nearbySearch getDetails params of
           Inl e \<Rightarrow> Inl e
         | Inr (allPlaces, filtered) \<Rightarrow>
             (let totalFilteredCount = int (length filtered);
                  paginatedBusinesses = slice filtered skp (skp + lim)
              in Inr \<lparr>businesses = paginatedBusinesses,
                      totalCount = Map_size allPlaces,
                      hasMore = (totalFilteredCount > skp + lim)\<rparr>))"

text \<open>
  The result list of one tier as the loop body sees it: the places of a resolved search,
  nothing for a rejected one.
\<close>

definition tierResults ::
  "NearbySearch \<Rightarrow> LatLng \<Rightarrow> string list option \<Rightarrow> real \<Rightarrow> PlaceResult list" where
  "tierResults nearbySearch searchLocation cats searchRadius =
     (case nearbySearch_promise nearbySearch (searchRequest searchLocation searchRadius cats) of
        Inr results \<Rightarrow> results
      | Inl e \<Rightarrow> [])"

subsection \<open>The older searchBusinesses\<close>

text \<open>
  The repository holds a second, older copy of the service. Its \<open>determineWebsiteType\<close> is
  the one above and its \<open>mapPlaceToBusiness\<close> sets the website type and the business status
  in the same way. Its \<open>searchBusinesses\<close> has no website type filter and no \<^verbatim>\<open>skip\<close>: it sends
  one nearby search, reads the exclusion list as the list of types to show, and returns the
  first \<^verbatim>\<open>limit\<close> businesses with their number as total count.
\<close>

definition legacy_business_filter :: "SearchParameters \<Rightarrow> Business \<Rightarrow> bool" where
  "legacy_business_filter params business =
     (if businessStatus business = Some ''PERMANENTLY_CLOSED'' then False
      else if excludeWebsiteTypes params = None \<or> length (the (excludeWebsiteTypes params)) = 0
      then websiteType business \<noteq> legitimate
      else array_includes (the (excludeWebsiteTypes params)) (websiteType business))"

definition legacy_result :: "SearchParameters \<Rightarrow> Business list \<Rightarrow> SearchResult" where
  "legacy_result params mapped =
     (let page = slice (filter (legacy_business_filter params) mapped) 0 (limit_of params)
      in \<lparr>businesses = page, totalCount = int (length page), hasMore = False\<rparr>)"

section \<open>Concrete inputs\<close>

text \<open>
  A stand-in parser for concrete evaluations: it accepts a string that starts with
  \<^verbatim>\<open>https://\<close> and has a non-empty authority, and returns the text up to the next slash.
\<close>

definition https_hostname :: URL_hostname where
  "https_hostname u =
     (if prefix ''https://'' u \<and> takeWhile (\<lambda>c. c \<noteq> CHR ''/'') (drop 8 u) \<noteq> []
      then Some (takeWhile (\<lambda>c. c \<noteq> CHR ''/'') (drop 8 u)) else None)"

definition example_location :: LatLng where
  "example_location = \<lparr>lat = 40, lng = -74\<rparr>"

definition place_salon :: PlaceResult where
  "place_salon =
     \<lparr>place_id = Some ''p1'', name = Some ''Salon'', formatted_address = Some ''1 Main St'',
      geometry = Some \<lparr>geometry_location = Some example_location\<rparr>,
      website = Some ''https://www.facebook.com/salon'',
      url = Some ''https://maps.google.com/?cid=1'',
      types = Some [''beauty_salon'', ''point_of_interest'', ''spa'', ''establishment'',
                    ''beauty_salon''],
      formatted_phone_number = None, business_status = None, photos = None\<rparr>"

definition business_salon :: Business where
  "business_salon =
     \<lparr>business_id = Some ''p1'', business_name = Some ''Salon'', address = Some ''1 Main St'',
      business_location = \<lparr>lat = 40, lng = -74\<rparr>,
      category = [''beauty_salon'', ''spa'', ''beauty_salon''],
      websiteType = facebook,
      websiteUrl = Some ''https://www.facebook.com/salon'',
      socialProfiles =
        \<lparr>profile_facebook = None, profile_yelp = None, profile_instagram = None,
         profile_other = Some [''https://maps.google.com/?cid=1'']\<rparr>,
      phoneNumber = None, lastUpdated = 7, searchQuery = ''Austin'',
      businessStatus = Some ''OPERATIONAL'',
      improvements =
        \<lparr>needsPhone = True, needsPhotos = True, needsSocialMedia = False,
         needsWebsite = True\<rparr>\<rparr>"

definition place_empty_phone :: PlaceResult where
  "place_empty_phone = place_salon\<lparr>formatted_phone_number := Some []\<rparr>"

definition place_cafe :: PlaceResult where
  "place_cafe =
     \<lparr>place_id = Some ''p3'', name = Some ''Cafe'', formatted_address = Some ''3 Main St'',
      geometry = Some \<lparr>geometry_location = Some example_location\<rparr>,
      website = Some ''https://joescafe.example/menu'',
      url = None,
      types = Some [''cafe'', ''food''],
      formatted_phone_number = Some ''555-0103'', business_status = Some ''OPERATIONAL'',
      photos = Some [\<lparr>height = 1, width = 1\<rparr>, \<lparr>height = 2, width = 2\<rparr>,
                     \<lparr>height = 3, width = 3\<rparr>]\<rparr>"

definition place_closed :: PlaceResult where
  "place_closed =
     \<lparr>place_id = Some ''p4'', name = Some ''Gone'', formatted_address = Some ''4 Main St'',
      geometry = Some \<lparr>geometry_location = Some example_location\<rparr>,
      website = None, url = None, types = None,
      formatted_phone_number = None, business_status = Some ''PERMANENTLY_CLOSED'',
      photos = None\<rparr>"

text \<open>A result of the nearby search: little more than an identifier.\<close>

definition stub :: "string option \<Rightarrow> PlaceResult" where
  "stub pid =
     \<lparr>place_id = pid, name = None, formatted_address = None, geometry = None,
      website = None, url = None, types = None, formatted_phone_number = None,
      business_status = None, photos = None\<rparr>"

text \<open>
  Services for one search around \<^verbatim>\<open>Austin\<close>: no result within 2000 m, two places within
  5000 m, a refused query at 10000 m, and beyond that a list that repeats a known place and
  holds a place without identifier. The details of \<^verbatim>\<open>p2\<close> cannot be fetched.
\<close>

definition example_geocode :: Geocoder where
  "example_geocode addr =
     (if addr = ''Austin'' then (Some [\<lparr>result_location = example_location\<rparr>], Geocoder_OK)
      else (None, Geocoder_ZERO_RESULTS))"

definition example_nearbySearch :: NearbySearch where
  "example_nearbySearch request =
     (if req_radius request = 2000 then (None, ZERO_RESULTS)
      else if req_radius request = 5000
      then (Some [stub (Some ''p1''), stub (Some ''p2'')], OK)
      else if req_radius request = 10000 then (None, OVER_QUERY_LIMIT)
      else (Some [stub (Some ''p2''), stub (Some ''p3''), stub None, stub (Some ''p4'')], OK))"

definition example_getDetails :: GetDetails where
  "example_getDetails request =
     (if placeId request = ''p1'' then (Some place_salon, OK)
      else if placeId request = ''p3'' then (Some place_cafe, OK)
      else if placeId request = ''p4'' then (Some place_closed, OK)
      else (None, NOT_FOUND))"

text \<open>
  A detail service that answers with the requested fields only: a field that the request
  does not list is absent from the record. The field list of the older copy of the service
  is given for comparison.
\<close>

definition requested :: "string list \<Rightarrow> string \<Rightarrow> 'a option \<Rightarrow> 'a option" where
  "requested fs f v = (if array_includes fs f then v else None)"

definition only_requested :: "string list \<Rightarrow> PlaceResult \<Rightarrow> PlaceResult" where
  "only_requested fs p =
     \<lparr>place_id = requested fs ''place_id'' (place_id p),
      name = requested fs ''name'' (name p),
      formatted_address = requested fs ''formatted_address'' (formatted_address p),
      geometry = requested fs ''geometry'' (geometry p),
      website = requested fs ''website'' (website p),
      url = requested fs ''url'' (url p),
      types = requested fs ''types'' (types p),
      formatted_phone_number = requested fs ''formatted_phone_number'' (formatted_phone_number p),
      business_status = requested fs ''business_status'' (business_status p),
      photos = requested fs ''photos'' (photos p)\<rparr>"

definition fieldwise_getDetails :: GetDetails where
  "fieldwise_getDetails request =
     (let (result, status) = example_getDetails request in
      (map_option (only_requested (request_fields request)) result, status))"

definition legacy_detailFields :: "string list" where
  "legacy_detailFields =
     [''place_id'', ''name'', ''business_status'', ''formatted_address'',
      ''formatted_phone_number'', ''geometry'', ''website'', ''url'', ''types'']"

definition example_params :: SearchParameters where
  "example_params =
     \<lparr>search_location = ''Austin'', radius = 20000, categories = Some [''cafe''],
      excludeWebsiteTypes = None, websiteType_filter = None, limit = Some 1, skip = None\<rparr>"

definition business_cafe :: Business where
  "business_cafe =
     \<lparr>business_id = Some ''p3'', business_name = Some ''Cafe'', address = Some ''3 Main St'',
      business_location = \<lparr>lat = 40, lng = -74\<rparr>,
      category = [''cafe'', ''food''],
      websiteType = legitimate,
      websiteUrl = Some ''https://joescafe.example/menu'',
      socialProfiles = noProfiles,
      phoneNumber = Some ''555-0103'', lastUpdated = 8, searchQuery = ''Austin'',
      businessStatus = Some ''OPERATIONAL'',
      improvements =
        \<lparr>needsPhone = False, needsPhotos = False, needsSocialMedia = False,
         needsWebsite = False\<rparr>\<rparr>"

definition business_closed :: Business where
  "business_closed =
     \<lparr>business_id = Some ''p4'', business_name = Some ''Gone'', address = Some ''4 Main St'',
      business_location = \<lparr>lat = 40, lng = -74\<rparr>,
      category = [],
      websiteType = none,
      websiteUrl = None,
      socialProfiles = noProfiles,
      phoneNumber = None, lastUpdated = 9, searchQuery = ''Austin'',
      businessStatus = Some ''PERMANENTLY_CLOSED'',
      improvements =
        \<lparr>needsPhone = True, needsPhotos = True, needsSocialMedia = False,
         needsWebsite = True\<rparr>\<rparr>"

definition example_map :: PlaceMap where
  "example_map =
     [(''p1'', stub (Some ''p1'')), (''p2'', stub (Some ''p2'')),
      (''p3'', stub (Some ''p3'')), (''p4'', stub (Some ''p4''))]"

definition example_clock :: "nat \<Rightarrow> Date" where
  "example_clock i = 7 + i"

definition example_result :: SearchResult where
  "example_result = \<lparr>businesses = [business_salon], totalCount = 4, hasMore = True\<rparr>"

section \<open>Facts about strings\<close>

lemma str_includes_sublist: "str_includes hay needle = sublist needle hay"
  by (induction hay) (simp_all add: sublist_Cons_right)

lemma list_ex_includes:
  "list_ex (\<lambda>d. str_includes hay d) ds = (\<exists>d\<in>set ds. sublist d hay)"
  by (simp add: list_ex_iff str_includes_sublist)

section \<open>Website classification\<close>

text \<open>
  C1. For every input of \<open>determineWebsiteType\<close>: an absent URL gives \<open>none\<close>; a URL that
  does not parse gives \<open>none\<close>; a parsed URL whose lower-cased hostname contains a Facebook
  domain gives \<open>facebook\<close>; otherwise one that contains a Yelp domain gives \<open>yelp\<close>; otherwise
  one that contains a domain of the platform list gives \<open>other\<close>; every other host gives
  \<open>legitimate\<close>. The parser is any function that rejects the empty string, as the platform's
  does.
\<close>

theorem determineWebsiteType_cases:
  assumes "hostname_of [] = None"
  shows "determineWebsiteType hostname_of link =
     (case link of
        None \<Rightarrow> none
      | Some u \<Rightarrow>
          (case hostname_of u of
             None \<Rightarrow> none
           | Some h \<Rightarrow>
               if \<exists>fb\<in>set FACEBOOK_DOMAINS. sublist fb (toLowerCase h) then facebook
               else if \<exists>y\<in>set YELP_DOMAINS. sublist y (toLowerCase h) then yelp
               else if \<exists>p\<in>set PLATFORM_DOMAINS. sublist p (toLowerCase h) then other
               else legitimate))"
proof (cases link)
  case None
  then show ?thesis by (simp add: determineWebsiteType_def falsy_def)
next
  case (Some u)
  show ?thesis
  proof (cases "u = []")
    case True
    with Some assms show ?thesis by (simp add: determineWebsiteType_def falsy_def)
  next
    case False
    with Some show ?thesis
      by (simp add: determineWebsiteType_def falsy_def list_ex_includes Let_def
               split: option.splits)
  qed
qed

theorem determineWebsiteType_cases_witness:
  "https_hostname [] = None \<and>
   determineWebsiteType https_hostname None = none \<and>
   determineWebsiteType https_hostname (Some ''not a url'') = none \<and>
   determineWebsiteType https_hostname (Some ''https://www.Facebook.com/somebiz'') = facebook \<and>
   determineWebsiteType https_hostname (Some ''https://m.yelp.com/biz/x'') = yelp \<and>
   determineWebsiteType https_hostname (Some ''https://joes.wix.com'') = other \<and>
   determineWebsiteType https_hostname (Some ''https://joespizza.example/menu'') = legitimate"
proof -
  have h: "https_hostname [] = None"
    by (simp add: https_hostname_def)
  have p1: "https_hostname ''not a url'' = None"
    by code_simp
  have p2: "https_hostname ''https://www.Facebook.com/somebiz'' = Some ''www.Facebook.com''"
    by code_simp
  have p3: "https_hostname ''https://m.yelp.com/biz/x'' = Some ''m.yelp.com''"
    by code_simp
  have p4: "https_hostname ''https://joes.wix.com'' = Some ''joes.wix.com''"
    by code_simp
  have p5: "https_hostname ''https://joespizza.example/menu'' = Some ''joespizza.example''"
    by code_simp
  have q2: "\<exists>d\<in>set FACEBOOK_DOMAINS. sublist d (toLowerCase ''www.Facebook.com'')"
    by code_simp
  have q3: "\<not> (\<exists>d\<in>set FACEBOOK_DOMAINS. sublist d (toLowerCase ''m.yelp.com''))"
    "\<exists>d\<in>set YELP_DOMAINS. sublist d (toLowerCase ''m.yelp.com'')"
    by code_simp+
  have q4: "\<not> (\<exists>d\<in>set FACEBOOK_DOMAINS. sublist d (toLowerCase ''joes.wix.com''))"
    "\<not> (\<exists>d\<in>set YELP_DOMAINS. sublist d (toLowerCase ''joes.wix.com''))"
    "\<exists>d\<in>set PLATFORM_DOMAINS. sublist d (toLowerCase ''joes.wix.com'')"
    by code_simp+
  have q5: "\<not> (\<exists>d\<in>set FACEBOOK_DOMAINS. sublist d (toLowerCase ''joespizza.example''))"
    "\<not> (\<exists>d\<in>set YELP_DOMAINS. sublist d (toLowerCase ''joespizza.example''))"
    "\<not> (\<exists>d\<in>set PLATFORM_DOMAINS. sublist d (toLowerCase ''joespizza.example''))"
    by code_simp+
  show ?thesis
    using h determineWebsiteType_cases [of https_hostname None]
      determineWebsiteType_cases [of https_hostname "Some ''not a url''"]
      determineWebsiteType_cases [of https_hostname "Some ''https://www.Facebook.com/somebiz''"]
      determineWebsiteType_cases [of https_hostname "Some ''https://m.yelp.com/biz/x''"]
      determineWebsiteType_cases [of https_hostname "Some ''https://joes.wix.com''"]
      determineWebsiteType_cases [of https_hostname "Some ''https://joespizza.example/menu''"]
    by (simp only: p1 p2 p3 p4 p5 q2 q3 q4 q5 option.case if_True if_False simp_thms)
qed

section \<open>Facts about the classifier\<close>

lemma array_includes_iff: "array_includes xs x = (x \<in> set xs)"
  by (auto simp: array_includes_def list_ex_iff)

lemma falsy_iff: "falsy s = (s = None \<or> s = Some [])"
  by (simp add: falsy_def split: option.splits)

lemma mapPlaceToBusiness_fields:
  assumes "mapPlaceToBusiness hostname_of now place query = Inr b"
  shows "websiteType b = determineWebsiteType hostname_of (website place)"
    and "category b = filterCategories (types place)"
    and "improvements b = computeImprovements place (websiteType b)"
    and "businessStatus b = Some (if falsy (business_status place) then ''OPERATIONAL''
                                  else the (business_status place))"
    and "lastUpdated b = now"
  using assms
  by (auto simp: mapPlaceToBusiness_def Let_def split: option.splits)

lemma filterCategories_filter:
  "filterCategories rawTypes = filter (\<lambda>t. t \<notin> set genericCategories) (case rawTypes of None \<Rightarrow> [] | Some ts \<Rightarrow> ts)"
  by (simp add: filterCategories_def array_includes_iff split: option.splits)

lemma count_list_filter: "P t \<Longrightarrow> count_list (filter P xs) t = count_list xs t"
  by (induction xs) auto

text \<open>The classifier on the concrete places.\<close>

lemma map_salon: "mapPlaceToBusiness https_hostname 7 place_salon ''Austin'' = Inr business_salon"
  by code_simp

lemma map_cafe: "mapPlaceToBusiness https_hostname 8 place_cafe ''Austin'' = Inr business_cafe"
  by code_simp

lemma map_closed: "mapPlaceToBusiness https_hostname 9 place_closed ''Austin'' = Inr business_closed"
  by code_simp

section \<open>Improvement flags\<close>

text \<open>
  C7, as the code has it. For every raw place: \<open>needsPhone\<close> holds exactly when the phone
  field is absent or the empty string (the code tests \<^verbatim>\<open>!place.formatted_phone_number\<close>);
  \<open>needsPhotos\<close> holds exactly when the photo list is absent or has fewer than three
  entries; \<open>needsSocialMedia\<close> is false; \<open>needsWebsite\<close> holds exactly when the website
  type is not \<open>legitimate\<close>. Every constructed business carries these flags for its own
  website type, so its type is \<open>legitimate\<close> exactly when \<open>needsWebsite\<close> is false.
\<close>

theorem improvement_flags:
  "needsPhone (computeImprovements place wt) =
     (formatted_phone_number place = None \<or> formatted_phone_number place = Some []) \<and>
   needsPhotos (computeImprovements place wt) =
     (photos place = None \<or> length (the (photos place)) < 3) \<and>
   \<not> needsSocialMedia (computeImprovements place wt) \<and>
   needsWebsite (computeImprovements place wt) = (wt \<noteq> legitimate) \<and>
   (\<forall>b. mapPlaceToBusiness hostname_of now place query = Inr b \<longrightarrow>
        websiteType b = determineWebsiteType hostname_of (website place) \<and>
        improvements b = computeImprovements place (websiteType b) \<and>
        (websiteType b = legitimate \<longleftrightarrow> needsWebsite (improvements b) = False))"
proof -
  have flags: "needsPhone (computeImprovements place wt) =
     (formatted_phone_number place = None \<or> formatted_phone_number place = Some [])"
    "needsPhotos (computeImprovements place wt) =
     (photos place = None \<or> length (the (photos place)) < 3)"
    "\<not> needsSocialMedia (computeImprovements place wt)"
    "needsWebsite (computeImprovements place wt) = (wt \<noteq> legitimate)" for wt
    by (simp_all add: computeImprovements_def falsy_iff split: option.splits)
  have "websiteType b = determineWebsiteType hostname_of (website place) \<and>
        improvements b = computeImprovements place (websiteType b) \<and>
        (websiteType b = legitimate \<longleftrightarrow> needsWebsite (improvements b) = False)"
    if "mapPlaceToBusiness hostname_of now place query = Inr b" for b
    using mapPlaceToBusiness_fields [OF that] flags(4) [of "websiteType b"] by simp
  with flags show ?thesis by blast
qed

theorem improvement_flags_witness:
  "mapPlaceToBusiness https_hostname 7 place_salon ''Austin'' = Inr business_salon \<and>
   formatted_phone_number place_salon = None \<and> needsPhone (improvements business_salon) \<and>
   photos place_salon = None \<and> needsPhotos (improvements business_salon) \<and>
   \<not> needsSocialMedia (improvements business_salon) \<and>
   websiteType business_salon = facebook \<and> needsWebsite (improvements business_salon) \<and>
   mapPlaceToBusiness https_hostname 8 place_cafe ''Austin'' = Inr business_cafe \<and>
   \<not> needsPhone (improvements business_cafe) \<and> \<not> needsPhotos (improvements business_cafe) \<and>
   websiteType business_cafe = legitimate \<and> \<not> needsWebsite (improvements business_cafe)"
proof -
  have s: "websiteType business_salon = facebook" "formatted_phone_number place_salon = None"
    "photos place_salon = None"
    by (simp_all add: business_salon_def place_salon_def)
  have c: "websiteType business_cafe = legitimate"
    "formatted_phone_number place_cafe = Some ''555-0103''"
    "length (the (photos place_cafe)) = 3" "photos place_cafe \<noteq> None"
    by (simp_all add: business_cafe_def place_cafe_def)
  show ?thesis
    using improvement_flags [of place_salon facebook https_hostname 7 "''Austin''"]
      improvement_flags [of place_cafe legitimate https_hostname 8 "''Austin''"]
      map_salon map_cafe s c
    by simp
qed

text \<open>
  The claim as written, "\<open>needsPhone\<close> is true if and only if the phone field is absent",
  fails on a place whose phone field is present and empty: the flag is set.
\<close>

theorem needsPhone_counterexample:
  "map_sum id (needsPhone \<circ> improvements)
     (mapPlaceToBusiness https_hostname 7 place_empty_phone ''Austin'') = Inr True \<and>
   formatted_phone_number place_empty_phone \<noteq> None"
  by (simp add: mapPlaceToBusiness_def place_empty_phone_def place_salon_def Let_def
      computeImprovements_def falsy_def)

section \<open>Category filtering\<close>

text \<open>
  C8. For every list of raw category tags, the filtered list holds no tag of the generic
  list, is a subsequence of the input (the surviving tags keep their order), and holds each
  surviving tag as often as the input does (nothing is deduplicated). The category list of
  every constructed business is this filtered list, so it never holds a generic tag.
\<close>

theorem filterCategories_denylist:
  "set (filterCategories rawTypes) \<inter> set genericCategories = {} \<and>
   subseq (filterCategories rawTypes) (case rawTypes of None \<Rightarrow> [] | Some ts \<Rightarrow> ts) \<and>
   (\<forall>t. t \<notin> set genericCategories \<longrightarrow>
        count_list (filterCategories rawTypes) t =
        count_list (case rawTypes of None \<Rightarrow> [] | Some ts \<Rightarrow> ts) t) \<and>
   (\<forall>b. mapPlaceToBusiness hostname_of now place query = Inr b \<longrightarrow>
        category b = filterCategories (types place) \<and>
        set (category b) \<inter> set genericCategories = {})"
proof -
  have a: "set (filterCategories ts) \<inter> set genericCategories = {}" for ts
    by (auto simp: filterCategories_filter)
  have b: "subseq (filterCategories rawTypes) (case rawTypes of None \<Rightarrow> [] | Some ts \<Rightarrow> ts)"
    by (simp add: filterCategories_filter)
  have c: "count_list (filterCategories rawTypes) t =
        count_list (case rawTypes of None \<Rightarrow> [] | Some ts \<Rightarrow> ts) t"
    if "t \<notin> set genericCategories" for t
    using that by (simp add: filterCategories_filter count_list_filter)
  have d: "category b = filterCategories (types place) \<and>
        set (category b) \<inter> set genericCategories = {}"
    if "mapPlaceToBusiness hostname_of now place query = Inr b" for b
    using mapPlaceToBusiness_fields(2) [OF that] a by simp
  from a b c d show ?thesis by blast
qed

theorem filterCategories_denylist_witness:
  "filterCategories (types place_salon) = [''beauty_salon'', ''spa'', ''beauty_salon''] \<and>
   set [''beauty_salon'', ''spa'', ''beauty_salon''] \<inter> set genericCategories = {} \<and>
   subseq [''beauty_salon'', ''spa'', ''beauty_salon'']
     [''beauty_salon'', ''point_of_interest'', ''spa'', ''establishment'', ''beauty_salon''] \<and>
   ''beauty_salon'' \<notin> set genericCategories \<and>
   count_list [''beauty_salon'', ''spa'', ''beauty_salon''] ''beauty_salon'' =
   count_list [''beauty_salon'', ''point_of_interest'', ''spa'', ''establishment'',
               ''beauty_salon''] ''beauty_salon'' \<and>
   mapPlaceToBusiness https_hostname 7 place_salon ''Austin'' = Inr business_salon \<and>
   category business_salon = [''beauty_salon'', ''spa'', ''beauty_salon'']"
proof -
  have f: "filterCategories (types place_salon) = [''beauty_salon'', ''spa'', ''beauty_salon'']"
    by code_simp
  have t: "types place_salon = Some [''beauty_salon'', ''point_of_interest'', ''spa'',
              ''establishment'', ''beauty_salon'']"
    by (simp add: place_salon_def)
  have n: "''beauty_salon'' \<notin> set genericCategories"
    by (simp add: genericCategories_def)
  show ?thesis
    using filterCategories_denylist [of "types place_salon" https_hostname 7 place_salon
        "''Austin''"] map_salon f t n
    by simp
qed

section \<open>Classification does not depend on the clock\<close>

text \<open>
  C9. Mapping the same raw place with the same search query at two times gives the same
  outcome up to the timestamp: both calls fail alike, or both succeed with the same website
  type, category list and improvement flags.
\<close>

theorem mapPlaceToBusiness_clock_independent:
  "map_sum id (\<lambda>b. (websiteType b, category b, improvements b))
     (mapPlaceToBusiness hostname_of t1 place query) =
   map_sum id (\<lambda>b. (websiteType b, category b, improvements b))
     (mapPlaceToBusiness hostname_of t2 place query)"
  by (simp add: mapPlaceToBusiness_def Let_def split: option.splits)

theorem mapPlaceToBusiness_clock_independent_witness:
  "mapPlaceToBusiness https_hostname 7 place_salon ''Austin'' = Inr business_salon \<and>
   map_sum id (\<lambda>b. (websiteType b, category b, improvements b))
     (mapPlaceToBusiness https_hostname 99 place_salon ''Austin'') =
   Inr (facebook, [''beauty_salon'', ''spa'', ''beauty_salon''],
        \<lparr>needsPhone = True, needsPhotos = True, needsSocialMedia = False,
         needsWebsite = True\<rparr>)"
  using mapPlaceToBusiness_clock_independent [of https_hostname 7 place_salon "''Austin''" 99]
    map_salon
  by (simp add: business_salon_def)

section \<open>Radius tiers\<close>

text \<open>
  C6. The ordered list of search radii derived from the requested radius \<open>r\<close> is \<open>[r]\<close> when
  \<open>r \<le> 2000\<close>, \<open>[min 2000 (r / 2), r]\<close> when \<open>2000 < r \<le> 10000\<close>, and
  \<open>[2000, 5000, 10000, r]\<close> when \<open>r > 10000\<close>.
\<close>

theorem searchRadii_tiers:
  "(r \<le> 2000 \<longrightarrow> searchRadii r = [r]) \<and>
   (2000 < r \<and> r \<le> 10000 \<longrightarrow> searchRadii r = [min 2000 (r / 2), r]) \<and>
   (10000 < r \<longrightarrow> searchRadii r = [2000, 5000, 10000, r])"
  by (simp add: searchRadii_def)

theorem searchRadii_tiers_witness:
  "searchRadii 1500 = [1500] \<and> searchRadii 3000 = [1500, 3000] \<and>
   searchRadii 5001 = [2000, 5001] \<and> searchRadii 50000 = [2000, 5000, 10000, 50000]"
  using searchRadii_tiers [of 1500] searchRadii_tiers [of 3000] searchRadii_tiers [of 5001]
    searchRadii_tiers [of 50000]
  by simp

section \<open>Facts about the aggregator\<close>

lemma take_min_length: "take (min n (length ys)) ys = take n ys"
  by (cases "n \<le> length ys") (simp_all add: min_def)

lemma slice_nonneg:
  assumes "0 \<le> a" and "0 \<le> n"
  shows "slice xs a (a + n) = take (nat n) (drop (nat a) xs)"
proof (cases "a \<le> int (length xs)")
  case True
  have "nat (min (a + n) (int (length xs)) - a) = min (nat n) (length (drop (nat a) xs))"
    using assms True by (simp add: min_def) linarith
  then have "take (nat (min (a + n) (int (length xs)) - a)) (drop (nat a) xs) =
             take (nat n) (drop (nat a) xs)"
    by (simp only: take_min_length)
  then show ?thesis
    using assms True by (simp add: slice_def Let_def min_absorb1)
next
  case False
  then show ?thesis
    using assms by (simp add: slice_def Let_def min_def)
qed

lemma set_slice: "set (slice xs a b) \<subseteq> set xs"
  unfolding slice_def Let_def
  by (meson set_take_subset set_drop_subset subset_trans)

lemma filteredBusinesses_Inr:
  assumes "filteredBusinesses h clock geocode ns gd params = Inr (allPlaces, filtered)"
  obtains first others mapped where
    "geocode_promise geocode (search_location params) = Inr (first # others)"
    "allPlaces = allPlaces_of ns (result_location first) params (limit_of params * 3)"
    "mapPlaces h clock (search_location params) 0
       (detailLoop gd (limit_of params * 3) allPlaces []) = Inr mapped"
    "filtered = filter (business_filter params) mapped"
  using assms unfolding filteredBusinesses_def Let_def
  by (auto split: sum.splits list.splits)

lemma searchBusinesses_Inr:
  assumes "searchBusinesses h clock geocode ns gd params = Inr res"
  obtains allPlaces filtered where
    "filteredBusinesses h clock geocode ns gd params = Inr (allPlaces, filtered)"
    "businesses res = slice filtered (skip_of params) (skip_of params + limit_of params)"
    "totalCount res = Map_size allPlaces"
    "hasMore res = (skip_of params + limit_of params < int (length filtered))"
  using assms unfolding searchBusinesses_def Let_def
  by (auto split: sum.splits)

lemma business_filter_cases:
  "business_filter params b =
     (businessStatus b \<noteq> Some ''PERMANENTLY_CLOSED'' \<and>
      (case websiteType_filter params of
         Some wt \<Rightarrow> websiteType b = wt
       | None \<Rightarrow>
          (case excludeWebsiteTypes params of
             None \<Rightarrow> True
           | Some ex \<Rightarrow> websiteType b \<notin> set ex)))"
  by (auto simp: business_filter_def array_includes_iff split: option.splits)

text \<open>The search on the concrete services.\<close>

lemma example_run:
  "searchBusinesses https_hostname example_clock example_geocode example_nearbySearch
     example_getDetails example_params = Inr example_result"
  by code_simp

section \<open>The filter of searchBusinesses\<close>

text \<open>
  C2. After classification, a business whose status is \<^verbatim>\<open>PERMANENTLY_CLOSED\<close> is dropped
  whatever the filter parameters are. Among the others: with a website type filter, exactly
  the businesses of that type are kept; without it and with a non-empty exclusion list,
  exactly the businesses whose type is not in the list are kept; with neither, every
  business is kept. Every business that \<open>searchBusinesses\<close> returns has passed this filter
  and is not permanently closed.
\<close>

theorem searchBusinesses_filter:
  "(businessStatus b = Some ''PERMANENTLY_CLOSED'' \<longrightarrow> \<not> business_filter params b) \<and>
   (businessStatus b \<noteq> Some ''PERMANENTLY_CLOSED'' \<longrightarrow>
      (\<forall>wt. websiteType_filter params = Some wt \<longrightarrow>
            business_filter params b = (websiteType b = wt)) \<and>
      (\<forall>ex. websiteType_filter params = None \<and> excludeWebsiteTypes params = Some ex \<and> ex \<noteq> [] \<longrightarrow>
            business_filter params b = (websiteType b \<notin> set ex)) \<and>
      (websiteType_filter params = None \<and>
       (excludeWebsiteTypes params = None \<or> excludeWebsiteTypes params = Some []) \<longrightarrow>
            business_filter params b)) \<and>
   (\<forall>res. searchBusinesses h clock geocode ns gd params = Inr res \<longrightarrow>
      (\<forall>x\<in>set (businesses res).
          business_filter params x \<and> businessStatus x \<noteq> Some ''PERMANENTLY_CLOSED''))"
proof -
  have "business_filter params x \<and> businessStatus x \<noteq> Some ''PERMANENTLY_CLOSED''"
    if r: "searchBusinesses h clock geocode ns gd params = Inr res"
      and x: "x \<in> set (businesses res)" for res x
  proof -
    from r obtain allPlaces filtered where
      f: "filteredBusinesses h clock geocode ns gd params = Inr (allPlaces, filtered)"
      and b: "businesses res = slice filtered (skip_of params) (skip_of params + limit_of params)"
      by (rule searchBusinesses_Inr)
    from f obtain mapped where m: "filtered = filter (business_filter params) mapped"
      by (rule filteredBusinesses_Inr)
    from x b set_slice have "x \<in> set filtered"
      by fastforce
    with m have "x \<in> set (filter (business_filter params) mapped)"
      by simp
    then have "business_filter params x" by simp
    then show ?thesis by (simp add: business_filter_cases)
  qed
  then show ?thesis
    by (auto simp: business_filter_cases)
qed

theorem searchBusinesses_filter_witness:
  "businessStatus business_closed = Some ''PERMANENTLY_CLOSED'' \<and>
   \<not> business_filter example_params business_closed \<and>
   \<not> business_filter (example_params\<lparr>websiteType_filter := Some none\<rparr>) business_closed \<and>
   business_filter (example_params\<lparr>websiteType_filter := Some facebook\<rparr>) business_salon \<and>
   \<not> business_filter (example_params\<lparr>websiteType_filter := Some yelp\<rparr>) business_salon \<and>
   \<not> business_filter (example_params\<lparr>excludeWebsiteTypes := Some [yelp, facebook]\<rparr>)
        business_salon \<and>
   business_filter (example_params\<lparr>excludeWebsiteTypes := Some [legitimate]\<rparr>) business_salon \<and>
   business_filter (example_params\<lparr>excludeWebsiteTypes := Some []\<rparr>) business_cafe \<and>
   business_filter example_params business_cafe \<and>
   searchBusinesses https_hostname example_clock example_geocode example_nearbySearch
     example_getDetails example_params = Inr example_result \<and>
   business_salon \<in> set (businesses example_result) \<and>
   business_filter example_params business_salon"
proof -
  have st: "businessStatus business_closed = Some ''PERMANENTLY_CLOSED''"
    "businessStatus business_salon \<noteq> Some ''PERMANENTLY_CLOSED''"
    "businessStatus business_cafe \<noteq> Some ''PERMANENTLY_CLOSED''"
    "websiteType business_salon = facebook"
    by (simp_all add: business_closed_def business_salon_def business_cafe_def)
  have r: "business_salon \<in> set (businesses example_result)"
    by (simp add: example_result_def)
  note w = searchBusinesses_filter [where h = https_hostname and clock = example_clock
      and geocode = example_geocode and ns = example_nearbySearch and gd = example_getDetails]
  show ?thesis
    using w [of business_closed example_params]
      w [of business_closed "example_params\<lparr>websiteType_filter := Some none\<rparr>"]
      w [of business_salon "example_params\<lparr>websiteType_filter := Some facebook\<rparr>"]
      w [of business_salon "example_params\<lparr>websiteType_filter := Some yelp\<rparr>"]
      w [of business_salon "example_params\<lparr>excludeWebsiteTypes := Some [yelp, facebook]\<rparr>"]
      w [of business_salon "example_params\<lparr>excludeWebsiteTypes := Some [legitimate]\<rparr>"]
      w [of business_cafe "example_params\<lparr>excludeWebsiteTypes := Some []\<rparr>"]
      w [of business_cafe example_params]
      st r example_run
    by (simp add: example_params_def)
qed

section \<open>A raw place without business status\<close>

text \<open>
  C10. No constructed business has an undefined status. When the business-status field of
  the raw place is absent, the status is \<^verbatim>\<open>OPERATIONAL\<close>, and the filter of
  \<open>searchBusinesses\<close> then decides on the website type alone: the test for permanently
  closed businesses never drops such a business.
\<close>

theorem absent_status_operational:
  assumes "mapPlaceToBusiness hostname_of now place query = Inr b"
  shows "businessStatus b \<noteq> None \<and>
    (business_status place = None \<longrightarrow>
       businessStatus b = Some ''OPERATIONAL'' \<and>
       business_filter params b =
         (case websiteType_filter params of
            Some wt \<Rightarrow> websiteType b = wt
          | None \<Rightarrow>
             (case excludeWebsiteTypes params of
                None \<Rightarrow> True
              | Some ex \<Rightarrow> websiteType b \<notin> set ex)))"
  using mapPlaceToBusiness_fields(4) [OF assms]
  by (simp add: business_filter_cases falsy_iff)

theorem absent_status_operational_witness:
  "mapPlaceToBusiness https_hostname 7 place_salon ''Austin'' = Inr business_salon \<and>
   business_status place_salon = None \<and>
   businessStatus business_salon = Some ''OPERATIONAL'' \<and>
   business_filter example_params business_salon \<and>
   business_filter (example_params\<lparr>websiteType_filter := Some facebook\<rparr>) business_salon \<and>
   \<not> business_filter (example_params\<lparr>excludeWebsiteTypes := Some [facebook]\<rparr>) business_salon"
proof -
  have a: "business_status place_salon = None" "websiteType business_salon = facebook"
    by (simp_all add: place_salon_def business_salon_def)
  show ?thesis
    using absent_status_operational [OF map_salon, of example_params]
      absent_status_operational [OF map_salon,
        of "example_params\<lparr>websiteType_filter := Some facebook\<rparr>"]
      absent_status_operational [OF map_salon,
        of "example_params\<lparr>excludeWebsiteTypes := Some [facebook]\<rparr>"]
      map_salon a
    by (simp add: example_params_def)
qed

section \<open>Facts about the map of places\<close>

lemma Map_size_distinct: "distinct (map fst m) \<Longrightarrow> Map_size m = int (card (fst ` set m))"
  using distinct_card [of "map fst m"] by (simp add: Map_size_def)

lemma Map_set_new: "\<not> Map_has m k \<Longrightarrow> Map_set m k v = m @ [(k, v)]"
  by (induction m) (auto simp: Map_has_def Map_set_def)

lemma Map_has_iff: "Map_has m k = (k \<in> fst ` set m)"
  by (simp add: Map_has_def map_of_eq_None_iff)

lemma addPlaces_append: "addPlaces m (xs @ ys) = addPlaces (addPlaces m xs) ys"
  by (induction xs arbitrary: m) simp_all

lemma addPlaces_prefix: "prefix m (addPlaces m rs)"
proof (induction rs arbitrary: m)
  case Nil
  show ?case by simp
next
  case (Cons place rest)
  show ?case
  proof (cases "\<not> falsy (place_id place) \<and> \<not> Map_has m (the (place_id place))")
    case True
    then have "addPlaces m (place # rest) =
               addPlaces (m @ [(the (place_id place), place)]) rest"
      by (simp add: Map_set_new)
    moreover have "prefix (m @ [(the (place_id place), place)])
                     (addPlaces (m @ [(the (place_id place), place)]) rest)"
      by (rule Cons.IH)
    ultimately show ?thesis
      using append_prefixD by metis
  next
    case False
    then have "addPlaces m (place # rest) = addPlaces m rest" by auto
    then show ?thesis using Cons.IH by simp
  qed
qed

lemma addPlaces_length: "length (addPlaces m rs) \<le> length m + length rs"
proof (induction rs arbitrary: m)
  case Nil
  show ?case by simp
next
  case (Cons place rest)
  show ?case
  proof (cases "\<not> falsy (place_id place) \<and> \<not> Map_has m (the (place_id place))")
    case True
    then have "addPlaces m (place # rest) =
               addPlaces (m @ [(the (place_id place), place)]) rest"
      by (simp add: Map_set_new)
    with Cons.IH [of "m @ [(the (place_id place), place)]"] show ?thesis by simp
  next
    case False
    then have "addPlaces m (place # rest) = addPlaces m rest" by auto
    with Cons.IH [of m] show ?thesis by simp
  qed
qed

lemma addPlaces_distinct:
  "distinct (map fst m) \<Longrightarrow> distinct (map fst (addPlaces m rs))"
proof (induction rs arbitrary: m)
  case Nil
  then show ?case by simp
next
  case (Cons place rest)
  show ?case
  proof (cases "\<not> falsy (place_id place) \<and> \<not> Map_has m (the (place_id place))")
    case True
    then have e: "addPlaces m (place # rest) =
               addPlaces (m @ [(the (place_id place), place)]) rest"
      by (simp add: Map_set_new)
    from True Cons.prems have "distinct (map fst (m @ [(the (place_id place), place)]))"
      by (simp add: Map_has_iff)
    then show ?thesis unfolding e by (rule Cons.IH)
  next
    case False
    then have "addPlaces m (place # rest) = addPlaces m rest" by auto
    with Cons show ?thesis by simp
  qed
qed

lemma addPlaces_first_wins:
  "map_of (addPlaces m rs) k =
     (case map_of m k of
        Some v \<Rightarrow> Some v
      | None \<Rightarrow> if k = [] then None else find (\<lambda>p. place_id p = Some k) rs)"
proof (induction rs arbitrary: m)
  case Nil
  show ?case by (simp split: option.splits)
next
  case (Cons place rest)
  show ?case
  proof (cases "\<not> falsy (place_id place) \<and> \<not> Map_has m (the (place_id place))")
    case True
    then obtain pid where pid: "place_id place = Some pid" "pid \<noteq> []" "map_of m pid = None"
      by (auto simp: falsy_iff Map_has_def)
    from True have e: "addPlaces m (place # rest) = addPlaces (m @ [(pid, place)]) rest"
      using pid by (simp add: Map_set_new)
    show ?thesis
      unfolding e Cons.IH using pid
      by (auto simp: map_add_def split: option.splits)
  next
    case False
    then have e: "addPlaces m (place # rest) = addPlaces m rest" by auto
    from False have "place_id place \<noteq> Some k" if "map_of m k = None" "k \<noteq> []"
      using that by (auto simp: falsy_iff Map_has_def)
    then show ?thesis
      unfolding e Cons.IH by (auto split: option.splits)
  qed
qed

section \<open>Facts about the two loops\<close>

lemma tierLoop_stop:
  "target \<le> Map_size (fst st) \<Longrightarrow> tierLoop ns loc cats target radii st = st"
  by (cases radii) simp_all

lemma tierLoop_step:
  "\<not> target \<le> Map_size (fst st) \<Longrightarrow>
   tierLoop ns loc cats target (r # rs) st =
   tierLoop ns loc cats target rs
     (addPlaces (fst st) (tierResults ns loc cats r),
      snd st + int (length (tierResults ns loc cats r)))"
  by (simp add: tierResults_def split: sum.splits)

lemma tierLoop_exact:
  "\<exists>n\<le>length radii.
     tierLoop ns loc cats target radii st =
       (addPlaces (fst st) (concat (map (tierResults ns loc cats) (take n radii))),
        snd st + (\<Sum>r\<leftarrow>take n radii. int (length (tierResults ns loc cats r)))) \<and>
     (n < length radii \<longrightarrow> target \<le> Map_size (fst (tierLoop ns loc cats target radii st))) \<and>
     (\<forall>i<n. Map_size (addPlaces (fst st)
                (concat (map (tierResults ns loc cats) (take i radii)))) < target)"
proof (induction radii arbitrary: st)
  case Nil
  show ?case by simp
next
  case (Cons r rs)
  show ?case
  proof (cases "target \<le> Map_size (fst st)")
    case True
    then have "tierLoop ns loc cats target (r # rs) st = st"
      by (rule tierLoop_stop)
    with True show ?thesis
      by (intro exI [of _ 0]) simp
  next
    case False
    let ?st = "(addPlaces (fst st) (tierResults ns loc cats r),
                snd st + int (length (tierResults ns loc cats r)))"
    have step: "tierLoop ns loc cats target (r # rs) st = tierLoop ns loc cats target rs ?st"
      using False by (rule tierLoop_step)
    from Cons.IH [of ?st] obtain n where n: "n \<le> length rs"
      "tierLoop ns loc cats target rs ?st =
       (addPlaces (fst ?st) (concat (map (tierResults ns loc cats) (take n rs))),
        snd ?st + (\<Sum>r\<leftarrow>take n rs. int (length (tierResults ns loc cats r))))"
      "n < length rs \<longrightarrow> target \<le> Map_size (fst (tierLoop ns loc cats target rs ?st))"
      "\<forall>i<n. Map_size (addPlaces (fst ?st)
                (concat (map (tierResults ns loc cats) (take i rs)))) < target"
      by blast
    have least: "Map_size (addPlaces (fst st)
                (concat (map (tierResults ns loc cats) (take i (r # rs))))) < target"
      if "i < Suc n" for i
    proof (cases i)
      case 0
      with False show ?thesis by simp
    next
      case (Suc j)
      with that have "j < n" by simp
      with n(4) have "Map_size (addPlaces (fst ?st)
                (concat (map (tierResults ns loc cats) (take j rs)))) < target"
        by blast
      with Suc show ?thesis by (simp add: addPlaces_append)
    qed
    have "Suc n \<le> length (r # rs)"
      using n(1) by simp
    moreover have "tierLoop ns loc cats target (r # rs) st =
       (addPlaces (fst st) (concat (map (tierResults ns loc cats) (take (Suc n) (r # rs)))),
        snd st + (\<Sum>r\<leftarrow>take (Suc n) (r # rs). int (length (tierResults ns loc cats r))))"
      unfolding step using n(2) by (simp add: addPlaces_append)
    moreover have "Suc n < length (r # rs) \<longrightarrow>
        target \<le> Map_size (fst (tierLoop ns loc cats target (r # rs) st))"
      unfolding step using n(3) by simp
    ultimately show ?thesis
      using least by blast
  qed
qed

lemma tierLoop_tiers:
  "\<exists>n\<le>length radii.
     tierLoop ns loc cats target radii st =
       (addPlaces (fst st) (concat (map (tierResults ns loc cats) (take n radii))),
        snd st + (\<Sum>r\<leftarrow>take n radii. int (length (tierResults ns loc cats r)))) \<and>
     (n < length radii \<longrightarrow> target \<le> Map_size (fst (tierLoop ns loc cats target radii st)))"
  using tierLoop_exact [of radii ns loc cats target st] by blast

lemma int_length_concat:
  "int (length (concat xss)) = (\<Sum>xs\<leftarrow>xss. int (length xs))"
  by (induction xss) simp_all

lemma sum_list_take_le:
  fixes f :: "'a \<Rightarrow> int"
  assumes "\<And>x. 0 \<le> f x"
  shows "(\<Sum>x\<leftarrow>take n xs. f x) \<le> (\<Sum>x\<leftarrow>xs. f x)"
proof -
  have "(\<Sum>x\<leftarrow>xs. f x) = (\<Sum>x\<leftarrow>take n xs. f x) + (\<Sum>x\<leftarrow>drop n xs. f x)"
    by (metis append_take_drop_id map_append sum_list_append)
  moreover have "0 \<le> (\<Sum>x\<leftarrow>drop n xs. f x)"
    by (rule sum_list_nonneg) (use assms in auto)
  ultimately show ?thesis by simp
qed

lemma tierLoop_distinct:
  "distinct (map fst (fst st)) \<Longrightarrow> distinct (map fst (fst (tierLoop ns loc cats target radii st)))"
  using tierLoop_tiers [of radii ns loc cats target st]
  by (auto simp: addPlaces_distinct)

lemma tierLoop_size_le:
  "Map_size (fst (tierLoop ns loc cats target radii ([], 0))) \<le>
   (\<Sum>r\<leftarrow>radii. int (length (tierResults ns loc cats r)))"
proof -
  from tierLoop_tiers [of radii ns loc cats target "([], 0)"] obtain n where
    n: "tierLoop ns loc cats target radii ([], 0) =
       (addPlaces [] (concat (map (tierResults ns loc cats) (take n radii))),
        (\<Sum>r\<leftarrow>take n radii. int (length (tierResults ns loc cats r))))"
    by auto
  have "Map_size (fst (tierLoop ns loc cats target radii ([], 0))) \<le>
        int (length (concat (map (tierResults ns loc cats) (take n radii))))"
    unfolding n Map_size_def
    using addPlaces_length [of "[]" "concat (map (tierResults ns loc cats) (take n radii))"]
    by simp
  also have "\<dots> = (\<Sum>r\<leftarrow>take n radii. int (length (tierResults ns loc cats r)))"
    by (simp add: int_length_concat comp_def)
  also have "\<dots> \<le> (\<Sum>r\<leftarrow>radii. int (length (tierResults ns loc cats r)))"
    by (rule sum_list_take_le) simp
  finally show ?thesis .
qed

lemma detailLoop_stop:
  "targetResults \<le> int (length acc) \<Longrightarrow> detailLoop gd targetResults m acc = acc"
  by (cases m) auto

lemma detailLoop_fetched:
  "\<exists>ks. subseq ks (map fst m) \<and>
        map Inr (detailLoop gd target m acc) = map Inr acc @ map (getDetails_promise gd) ks"
proof (induction m arbitrary: acc)
  case Nil
  show ?case by (intro exI [of _ "[]"]) simp
next
  case (Cons entry rest)
  obtain pid basicPlace where entry: "entry = (pid, basicPlace)"
    by (cases entry)
  show ?case
  proof (cases "target \<le> int (length acc)")
    case True
    then have "detailLoop gd target (entry # rest) acc = acc"
      by (rule detailLoop_stop)
    then show ?thesis by (intro exI [of _ "[]"]) simp
  next
    case False
    show ?thesis
    proof (cases "getDetails_promise gd pid")
      case (Inl e)
      with False entry have "detailLoop gd target (entry # rest) acc = detailLoop gd target rest acc"
        by simp
      moreover from Cons.IH [of acc] obtain ks where
        "subseq ks (map fst rest)"
        "map Inr (detailLoop gd target rest acc) = map Inr acc @ map (getDetails_promise gd) ks"
        by blast
      ultimately show ?thesis
        using entry by (intro exI [of _ ks]) (simp add: list_emb_Cons)
    next
      case (Inr d)
      with False entry have "detailLoop gd target (entry # rest) acc =
                             detailLoop gd target rest (acc @ [d])"
        by simp
      moreover from Cons.IH [of "acc @ [d]"] obtain ks where
        "subseq ks (map fst rest)"
        "map Inr (detailLoop gd target rest (acc @ [d])) =
         map Inr (acc @ [d]) @ map (getDetails_promise gd) ks"
        by blast
      ultimately show ?thesis
        using entry Inr by (intro exI [of _ "pid # ks"]) simp
    qed
  qed
qed

lemma subseq_distinct: "subseq xs ys \<Longrightarrow> distinct ys \<Longrightarrow> distinct xs"
  by (auto simp: subseq_conv_nths)

lemma subseq_set: "subseq xs ys \<Longrightarrow> set xs \<subseteq> set ys"
  by (auto elim: list_emb_set)

lemma detailLoop_ids:
  assumes "distinct (map fst m)"
  shows "\<exists>ks. distinct ks \<and> set ks \<subseteq> fst ` set m \<and>
              map Inr (detailLoop gd target m []) = map (getDetails_promise gd) ks"
proof -
  from detailLoop_fetched [of m gd target "[]"] obtain ks where
    ks: "subseq ks (map fst m)"
      "map Inr (detailLoop gd target m []) = map (getDetails_promise gd) ks"
    by auto
  from ks(1) assms have "distinct ks"
    by (rule subseq_distinct)
  moreover from ks(1) have "set ks \<subseteq> fst ` set m"
    using subseq_set by fastforce
  ultimately show ?thesis using ks(2) by blast
qed

lemma detailLoop_place_ids:
  assumes "distinct (map fst m)"
    and "\<forall>k d. getDetails_promise gd k = Inr d \<longrightarrow> place_id d = Some k"
  shows "distinct (map place_id (detailLoop gd target m []))"
proof -
  from detailLoop_ids [OF assms(1), of gd target] obtain ks where
    ks: "distinct ks" "map Inr (detailLoop gd target m []) = map (getDetails_promise gd) ks"
    by blast
  let ?ds = "detailLoop gd target m []"
  have len: "length ?ds = length ks"
    using ks(2) by (metis length_map)
  have "place_id (?ds ! i) = Some (ks ! i)" if "i < length ks" for i
  proof -
    have "map Inr ?ds ! i = map (getDetails_promise gd) ks ! i"
      using ks(2) by simp
    then have "getDetails_promise gd (ks ! i) = Inr (?ds ! i)"
      using that len by simp
    with assms(2) show ?thesis by blast
  qed
  then have "map place_id ?ds = map Some ks"
    using len by (intro nth_equalityI) simp_all
  then show ?thesis
    using ks(1) by (simp add: distinct_map)
qed

text \<open>The two loops on the concrete services.\<close>

lemma example_tiers:
  "tierLoop example_nearbySearch example_location (Some [''cafe'']) 3 (searchRadii 20000)
     ([], 0) = (example_map, 6)"
  by code_simp

lemma example_details:
  "detailLoop example_getDetails 3 example_map [] = [place_salon, place_cafe, place_closed]"
  by code_simp

lemma example_getDetails_id:
  "getDetails_promise example_getDetails k = Inr d \<Longrightarrow> place_id d = Some k"
  by (auto simp: getDetails_promise_def example_getDetails_def place_salon_def place_cafe_def
      place_closed_def split: if_splits)

section \<open>Deduplication by place identifier\<close>

text \<open>
  What holds of the aggregation for any list of tiers, any target and any services. Adding
  the results of a tier keeps every entry the map has and stores, for a new non-empty
  identifier, the first place of the list that carries it. The loop searches a leading part
  of the tiers: before each tier it searched the map was below the target, and when it
  leaves a tier unsearched the map has reached the target. No identifier is a key twice,
  and the number of keys is at most the sum of the result counts of the tiers. The detail
  loop fetches the details of a duplicate-free list of keys of the map, one record for each
  fetch that succeeds; the records themselves carry distinct place identifiers when the
  detail service answers with the identifier it was asked.
\<close>

lemma aggregator_dedup:
  "(\<forall>k. map_of (addPlaces m results) k =
         (case map_of m k of
            Some v \<Rightarrow> Some v
          | None \<Rightarrow> if k = [] then None else find (\<lambda>p. place_id p = Some k) results)) \<and>
   (\<exists>n\<le>length radii.
      tierLoop ns loc cats target radii ([], 0) =
        (addPlaces [] (concat (map (tierResults ns loc cats) (take n radii))),
         (\<Sum>r\<leftarrow>take n radii. int (length (tierResults ns loc cats r)))) \<and>
      (n < length radii \<longrightarrow>
         target \<le> Map_size (fst (tierLoop ns loc cats target radii ([], 0)))) \<and>
      (\<forall>i<n. Map_size (addPlaces []
                 (concat (map (tierResults ns loc cats) (take i radii)))) < target)) \<and>
   distinct (map fst (fst (tierLoop ns loc cats target radii ([], 0)))) \<and>
   Map_size (fst (tierLoop ns loc cats target radii ([], 0))) \<le>
     (\<Sum>r\<leftarrow>radii. int (length (tierResults ns loc cats r))) \<and>
   (target \<le> Map_size (fst st) \<longrightarrow> tierLoop ns loc cats target radii st = st) \<and>
   (\<exists>ks. distinct ks \<and>
         set ks \<subseteq> fst ` set (fst (tierLoop ns loc cats target radii ([], 0))) \<and>
         map Inr (detailLoop gd target (fst (tierLoop ns loc cats target radii ([], 0))) []) =
         map (getDetails_promise gd) ks) \<and>
   ((\<forall>k d. getDetails_promise gd k = Inr d \<longrightarrow> place_id d = Some k) \<longrightarrow>
      distinct (map place_id
        (detailLoop gd target (fst (tierLoop ns loc cats target radii ([], 0))) [])))"
proof -
  let ?m = "fst (tierLoop ns loc cats target radii ([], 0))"
  have d: "distinct (map fst ?m)"
    by (rule tierLoop_distinct) simp
  have t: "\<exists>n\<le>length radii.
      tierLoop ns loc cats target radii ([], 0) =
        (addPlaces [] (concat (map (tierResults ns loc cats) (take n radii))),
         (\<Sum>r\<leftarrow>take n radii. int (length (tierResults ns loc cats r)))) \<and>
      (n < length radii \<longrightarrow> target \<le> Map_size ?m) \<and>
      (\<forall>i<n. Map_size (addPlaces []
                 (concat (map (tierResults ns loc cats) (take i radii)))) < target)"
    using tierLoop_exact [of radii ns loc cats target "([], 0)"] by simp
  have s: "target \<le> Map_size (fst st) \<longrightarrow> tierLoop ns loc cats target radii st = st"
    by (simp add: tierLoop_stop)
  have i: "\<exists>ks. distinct ks \<and> set ks \<subseteq> fst ` set ?m \<and>
         map Inr (detailLoop gd target ?m []) = map (getDetails_promise gd) ks"
    using d by (rule detailLoop_ids)
  have p: "(\<forall>k d. getDetails_promise gd k = Inr d \<longrightarrow> place_id d = Some k) \<longrightarrow>
      distinct (map place_id (detailLoop gd target ?m []))"
    using d by (simp add: detailLoop_place_ids)
  from addPlaces_first_wins t d tierLoop_size_le s i p show ?thesis
    by blast
qed

lemma aggregator_dedup_example:
  "tierLoop example_nearbySearch example_location (Some [''cafe'']) 3 (searchRadii 20000)
     ([], 0) = (example_map, 6) \<and>
   map fst example_map = [''p1'', ''p2'', ''p3'', ''p4''] \<and>
   distinct (map fst example_map) \<and>
   Map_size example_map = 4 \<and>
   (\<Sum>r\<leftarrow>searchRadii 20000.
       int (length (tierResults example_nearbySearch example_location (Some [''cafe'']) r))) = 6 \<and>
   map_of (addPlaces example_map
            [(stub (Some ''p2''))\<lparr>name := Some ''later''\<rparr>, stub (Some ''p5'')]) ''p2'' =
     Some (stub (Some ''p2'')) \<and>
   map_of (addPlaces example_map
            [(stub (Some ''p2''))\<lparr>name := Some ''later''\<rparr>, stub (Some ''p5'')]) ''p5'' =
     Some (stub (Some ''p5'')) \<and>
   tierLoop example_nearbySearch example_location (Some [''cafe'']) 3 [50000] (example_map, 6) =
     (example_map, 6) \<and>
   detailLoop example_getDetails 3 example_map [] = [place_salon, place_cafe, place_closed] \<and>
   distinct (map place_id (detailLoop example_getDetails 3 example_map []))"
proof -
  note T = aggregator_dedup [where m = example_map
      and results = "[(stub (Some ''p2''))\<lparr>name := Some ''later''\<rparr>, stub (Some ''p5'')]"
      and ns = example_nearbySearch and loc = example_location and cats = "Some [''cafe'']"
      and target = 3 and gd = example_getDetails]
  note A = T [where radii = "searchRadii 20000" and st = "([], 0)"]
  note B = T [where radii = "[50000]" and st = "(example_map, 6)"]
  have keys: "map fst example_map = [''p1'', ''p2'', ''p3'', ''p4'']"
    by (simp add: example_map_def)
  have size: "Map_size example_map = 4"
    by (simp add: example_map_def Map_size_def)
  have total: "(\<Sum>r\<leftarrow>searchRadii 20000.
       int (length (tierResults example_nearbySearch example_location (Some [''cafe'']) r))) = 6"
    by code_simp
  have look: "map_of example_map ''p2'' = Some (stub (Some ''p2''))"
    "map_of example_map ''p5'' = None"
    by (simp_all add: example_map_def)
  have found: "find (\<lambda>p. place_id p = Some ''p5'')
      [(stub (Some ''p2''))\<lparr>name := Some ''later''\<rparr>, stub (Some ''p5'')] = Some (stub (Some ''p5''))"
    by (simp add: stub_def)
  from A have "distinct (map fst (fst (tierLoop example_nearbySearch example_location
      (Some [''cafe'']) 3 (searchRadii 20000) ([], 0))))"
    by blast
  then have dist: "distinct (map fst example_map)"
    by (simp add: example_tiers)
  from A have w: "\<forall>k. map_of (addPlaces example_map
            [(stub (Some ''p2''))\<lparr>name := Some ''later''\<rparr>, stub (Some ''p5'')]) k =
         (case map_of example_map k of
            Some v \<Rightarrow> Some v
          | None \<Rightarrow> if k = [] then None else find (\<lambda>p. place_id p = Some k)
              [(stub (Some ''p2''))\<lparr>name := Some ''later''\<rparr>, stub (Some ''p5'')])"
    by blast
  have w2: "map_of (addPlaces example_map
            [(stub (Some ''p2''))\<lparr>name := Some ''later''\<rparr>, stub (Some ''p5'')]) ''p2'' =
     Some (stub (Some ''p2''))"
    using w look by simp
  have w5: "map_of (addPlaces example_map
            [(stub (Some ''p2''))\<lparr>name := Some ''later''\<rparr>, stub (Some ''p5'')]) ''p5'' =
     Some (stub (Some ''p5''))"
    using w look found by simp
  from B have "3 \<le> Map_size (fst (example_map, 6 :: int)) \<longrightarrow>
      tierLoop example_nearbySearch example_location (Some [''cafe'']) 3 [50000] (example_map, 6) =
      (example_map, 6)"
    by blast
  then have stop: "tierLoop example_nearbySearch example_location (Some [''cafe'']) 3 [50000]
      (example_map, 6) = (example_map, 6)"
    using size by simp
  from A have "(\<forall>k d. getDetails_promise example_getDetails k = Inr d \<longrightarrow> place_id d = Some k) \<longrightarrow>
      distinct (map place_id (detailLoop example_getDetails 3
        (fst (tierLoop example_nearbySearch example_location (Some [''cafe'']) 3
           (searchRadii 20000) ([], 0))) []))"
    by blast
  then have ids: "distinct (map place_id (detailLoop example_getDetails 3 example_map []))"
    using example_getDetails_id by (simp add: example_tiers)
  from example_tiers keys dist size total w2 w5 stop example_details ids show ?thesis
    by simp
qed

text \<open>
  The same inside \<open>searchBusinesses\<close>, where the tiers are those of the requested radius
  and the target is \<open>limit \<times> 3\<close>.
\<close>

lemma searchBusinesses_dedup:
  assumes "filteredBusinesses h clock geocode ns gd params = Inr (allPlaces, filtered)"
  shows "\<exists>first others n.
      geocode_promise geocode (search_location params) = Inr (first # others) \<and>
      n \<le> length (searchRadii (radius params)) \<and>
      allPlaces = addPlaces [] (concat (map
          (tierResults ns (result_location first) (categories params))
          (take n (searchRadii (radius params))))) \<and>
      (n < length (searchRadii (radius params)) \<longrightarrow> limit_of params * 3 \<le> Map_size allPlaces) \<and>
      (\<forall>i<n. Map_size (addPlaces [] (concat (map
          (tierResults ns (result_location first) (categories params))
          (take i (searchRadii (radius params)))))) < limit_of params * 3) \<and>
      distinct (map fst allPlaces) \<and>
      Map_size allPlaces \<le>
        (\<Sum>r\<leftarrow>searchRadii (radius params).
            int (length (tierResults ns (result_location first) (categories params) r)))"
proof -
  from assms obtain first others where
    g: "geocode_promise geocode (search_location params) = Inr (first # others)"
    and a: "allPlaces = allPlaces_of ns (result_location first) params (limit_of params * 3)"
    by (rule filteredBusinesses_Inr)
  let ?loc = "result_location first" and ?radii = "searchRadii (radius params)"
  let ?loop = "tierLoop ns ?loc (categories params) (limit_of params * 3) ?radii ([], 0)"
  have m: "allPlaces = fst ?loop"
    using a by (simp add: allPlaces_of_def)
  from tierLoop_exact [of ?radii ns ?loc "categories params" "limit_of params * 3" "([], 0)"]
  obtain n where n: "n \<le> length ?radii"
    "?loop = (addPlaces [] (concat (map (tierResults ns ?loc (categories params)) (take n ?radii))),
        (\<Sum>r\<leftarrow>take n ?radii. int (length (tierResults ns ?loc (categories params) r))))"
    "n < length ?radii \<longrightarrow> limit_of params * 3 \<le> Map_size (fst ?loop)"
    "\<forall>i<n. Map_size (addPlaces [] (concat (map (tierResults ns ?loc (categories params))
          (take i ?radii)))) < limit_of params * 3"
    by auto
  have e: "allPlaces = addPlaces [] (concat (map (tierResults ns ?loc (categories params))
      (take n ?radii)))"
    unfolding m n(2) by simp
  have d: "distinct (map fst allPlaces)"
    unfolding m by (rule tierLoop_distinct) simp
  have s: "Map_size allPlaces \<le>
        (\<Sum>r\<leftarrow>?radii. int (length (tierResults ns ?loc (categories params) r)))"
    unfolding m by (rule tierLoop_size_le)
  from n(3) have t: "n < length ?radii \<longrightarrow> limit_of params * 3 \<le> Map_size allPlaces"
    unfolding m .
  from g n(1) e t n(4) d s show ?thesis
    by blast
qed

section \<open>Place identifiers of the detailed list\<close>

text \<open>
  C4. The claim concludes from the deduplication that no place identifier appears twice in
  the detailed list. The detail loop keeps the records that the detail service returns and
  drops the entries of the map, and its request does not list \<^verbatim>\<open>place_id\<close> among the fields,
  as the request of the older copy does. With a detail service that answers with the
  requested fields only, the keys of the map are distinct, yet every detailed record is
  without identifier: the identifiers of the detailed list are not distinct, and the
  businesses that \<open>searchBusinesses\<close> returns all carry the same undefined \<^verbatim>\<open>id\<close>.
\<close>

theorem detailed_ids_not_unique:
  "distinct (map fst example_map) \<and>
   \<not> array_includes detailFields ''place_id'' \<and>
   array_includes legacy_detailFields ''place_id'' \<and>
   map place_id (detailLoop fieldwise_getDetails 3 example_map []) = [None, None, None] \<and>
   \<not> distinct (map place_id (detailLoop fieldwise_getDetails 3 example_map [])) \<and>
   map_sum id (map business_id \<circ> businesses)
     (searchBusinesses https_hostname example_clock example_geocode example_nearbySearch
        fieldwise_getDetails (example_params\<lparr>limit := Some 5\<rparr>)) = Inr [None, None]"
proof -
  have k: "distinct (map fst example_map)"
    by (simp add: example_map_def)
  have f: "\<not> array_includes detailFields ''place_id''"
    "array_includes legacy_detailFields ''place_id''"
    by (simp_all add: array_includes_def detailFields_def legacy_detailFields_def)
  have d: "map place_id (detailLoop fieldwise_getDetails 3 example_map []) = [None, None, None]"
    by code_simp
  have r: "map_sum id (map business_id \<circ> businesses)
     (searchBusinesses https_hostname example_clock example_geocode example_nearbySearch
        fieldwise_getDetails (example_params\<lparr>limit := Some 5\<rparr>)) = Inr [None, None]"
    by code_simp
  from k f d r show ?thesis by simp
qed

section \<open>Pagination\<close>

lemma example_filtered:
  "filteredBusinesses https_hostname example_clock example_geocode example_nearbySearch
     example_getDetails example_params = Inr (example_map, [business_salon, business_cafe])"
  by code_simp

lemma example_filtered_page:
  "filteredBusinesses https_hostname example_clock example_geocode example_nearbySearch
     example_getDetails (example_params\<lparr>limit := Some 5, skip := Some 1\<rparr>) =
   Inr (example_map, [business_salon, business_cafe])"
  by code_simp

text \<open>
  C3. When the search reaches the filter, with \<open>skip\<close> and \<open>limit\<close> not negative,
  \<open>searchBusinesses\<close> returns: the filtered list cut to the indices from \<open>skip\<close> up to but
  not including \<open>skip + limit\<close>, so at most \<open>limit\<close> businesses; \<open>hasMore\<close> exactly when the
  filtered list is longer than \<open>skip + limit\<close>; and as \<open>totalCount\<close> the number of distinct
  place identifiers that the tier loop accumulated, whatever the filter then dropped.
\<close>

theorem searchBusinesses_pagination:
  assumes "filteredBusinesses h clock geocode ns gd params = Inr (allPlaces, filtered)"
    and "0 \<le> skip_of params" and "0 \<le> limit_of params"
  shows "\<exists>res. searchBusinesses h clock geocode ns gd params = Inr res \<and>
      businesses res = take (nat (limit_of params)) (drop (nat (skip_of params)) filtered) \<and>
      (\<forall>i<length (businesses res). businesses res ! i = filtered ! (nat (skip_of params) + i)) \<and>
      int (length (businesses res)) \<le> limit_of params \<and>
      hasMore res = (skip_of params + limit_of params < int (length filtered)) \<and>
      totalCount res = int (card (fst ` set allPlaces)) \<and>
      (\<exists>first others.
          geocode_promise geocode (search_location params) = Inr (first # others) \<and>
          allPlaces = fst (tierLoop ns (result_location first) (categories params)
                             (limit_of params * 3) (searchRadii (radius params)) ([], 0)))"
proof -
  let ?res = "\<lparr>businesses = slice filtered (skip_of params) (skip_of params + limit_of params),
               totalCount = Map_size allPlaces,
               hasMore = (skip_of params + limit_of params < int (length filtered))\<rparr>"
  let ?page = "take (nat (limit_of params)) (drop (nat (skip_of params)) filtered)"
  have run: "searchBusinesses h clock geocode ns gd params = Inr ?res"
    using assms(1) by (simp add: searchBusinesses_def Let_def)
  have page: "businesses ?res = ?page"
    using assms(2,3) by (simp add: slice_nonneg)
  have nth: "?page ! i = filtered ! (nat (skip_of params) + i)" if "i < length ?page" for i
  proof -
    from that have l: "i < nat (limit_of params)"
      and "i < length filtered - nat (skip_of params)"
      by simp_all
    then have "nat (skip_of params) \<le> length filtered"
      by arith
    with l show ?thesis by (simp add: nth_drop)
  qed
  have len: "int (length ?page) \<le> limit_of params"
    using assms(3) by simp
  from assms(1) obtain first others where
    g: "geocode_promise geocode (search_location params) = Inr (first # others)"
    and a: "allPlaces = allPlaces_of ns (result_location first) params (limit_of params * 3)"
    by (rule filteredBusinesses_Inr)
  have "distinct (map fst allPlaces)"
    unfolding a allPlaces_of_def by (rule tierLoop_distinct) simp
  then have count: "totalCount ?res = int (card (fst ` set allPlaces))"
    by (simp add: Map_size_distinct)
  have src: "\<exists>first others.
          geocode_promise geocode (search_location params) = Inr (first # others) \<and>
          allPlaces = fst (tierLoop ns (result_location first) (categories params)
                             (limit_of params * 3) (searchRadii (radius params)) ([], 0))"
    using g a unfolding allPlaces_of_def by blast
  show ?thesis
    using run page nth len count src
    by (intro exI [of _ ?res]) (simp del: length_take nth_take nth_drop)
qed

theorem searchBusinesses_pagination_witness:
  "filteredBusinesses https_hostname example_clock example_geocode example_nearbySearch
     example_getDetails example_params = Inr (example_map, [business_salon, business_cafe]) \<and>
   skip_of example_params = 0 \<and> limit_of example_params = 1 \<and>
   searchBusinesses https_hostname example_clock example_geocode example_nearbySearch
     example_getDetails example_params =
     Inr \<lparr>businesses = [business_salon], totalCount = 4, hasMore = True\<rparr> \<and>
   searchBusinesses https_hostname example_clock example_geocode example_nearbySearch
     example_getDetails (example_params\<lparr>limit := Some 5, skip := Some 1\<rparr>) =
     Inr \<lparr>businesses = [business_cafe], totalCount = 4, hasMore = False\<rparr>"
proof -
  have p: "skip_of example_params = 0" "limit_of example_params = 1"
    "skip_of (example_params\<lparr>limit := Some 5, skip := Some 1\<rparr>) = 1"
    "limit_of (example_params\<lparr>limit := Some 5, skip := Some 1\<rparr>) = 5"
    by (simp_all add: skip_of_def limit_of_def example_params_def)
  have c: "card (fst ` set example_map) = 4"
    by (simp add: example_map_def)
  from searchBusinesses_pagination [OF example_filtered] p
  obtain r1 where r1:
    "searchBusinesses https_hostname example_clock example_geocode example_nearbySearch
       example_getDetails example_params = Inr r1"
    "businesses r1 = take (nat 1) (drop (nat 0) [business_salon, business_cafe])"
    "hasMore r1 = (0 + 1 < int (length [business_salon, business_cafe]))"
    "totalCount r1 = int (card (fst ` set example_map))"
    by auto
  from searchBusinesses_pagination [OF example_filtered_page] p
  obtain r2 where r2:
    "searchBusinesses https_hostname example_clock example_geocode example_nearbySearch
       example_getDetails (example_params\<lparr>limit := Some 5, skip := Some 1\<rparr>) = Inr r2"
    "businesses r2 = take (nat 5) (drop (nat 1) [business_salon, business_cafe])"
    "hasMore r2 = (1 + 5 < int (length [business_salon, business_cafe]))"
    "totalCount r2 = int (card (fst ` set example_map))"
    by auto
  have "r1 = \<lparr>businesses = [business_salon], totalCount = 4, hasMore = True\<rparr>"
    using r1(2-4) c by (cases r1) simp
  moreover have "r2 = \<lparr>businesses = [business_cafe], totalCount = 4, hasMore = False\<rparr>"
    using r2(2-4) c by (cases r2) simp
  ultimately show ?thesis
    using r1(1) r2(1) p example_filtered by simp
qed

section \<open>Failures of the external services\<close>

text \<open>
  C5. A nearby search that answers \<^verbatim>\<open>ZERO_RESULTS\<close> resolves to the empty list; one that
  answers any other status but \<^verbatim>\<open>OK\<close> is rejected. In both cases the tier adds nothing and
  the loop goes on with the remaining tiers. A detail request that does not answer \<^verbatim>\<open>OK\<close>
  skips its place only: the loop goes on with the remaining places. A geocoding status other
  than \<^verbatim>\<open>OK\<close> ends the whole call with the geocoding error.
\<close>

theorem search_error_handling:
  "(snd (ns request) = ZERO_RESULTS \<longrightarrow> nearbySearch_promise ns request = Inr []) \<and>
   (snd (ns request) \<noteq> OK \<and> snd (ns request) \<noteq> ZERO_RESULTS \<longrightarrow>
      nearbySearch_promise ns request = Inl (PlacesSearchFailed (snd (ns request)))) \<and>
   (snd (ns (searchRequest loc r cats)) \<noteq> OK \<longrightarrow>
      tierLoop ns loc cats target (r # rs) st = tierLoop ns loc cats target rs st) \<and>
   (snd (gd \<lparr>placeId = pid, request_fields = detailFields\<rparr>) \<noteq> OK \<longrightarrow>
      detailLoop gd target ((pid, basicPlace) # rest) acc = detailLoop gd target rest acc) \<and>
   (snd (geocode (search_location params)) \<noteq> Geocoder_OK \<longrightarrow>
      searchBusinesses h clock geocode ns gd params =
      Inl (GeocodingFailed (snd (geocode (search_location params)))))"
proof -
  have a: "snd (ns request) = ZERO_RESULTS \<longrightarrow> nearbySearch_promise ns request = Inr []"
    by (cases "ns request") (simp add: nearbySearch_promise_def)
  have b: "snd (ns request) \<noteq> OK \<and> snd (ns request) \<noteq> ZERO_RESULTS \<longrightarrow>
      nearbySearch_promise ns request = Inl (PlacesSearchFailed (snd (ns request)))"
    by (cases "ns request") (simp add: nearbySearch_promise_def)
  have c: "tierLoop ns loc cats target (r # rs) st = tierLoop ns loc cats target rs st"
    if "snd (ns (searchRequest loc r cats)) \<noteq> OK"
  proof (cases "target \<le> Map_size (fst st)")
    case True
    then show ?thesis by (simp add: tierLoop_stop)
  next
    case False
    from that have "tierResults ns loc cats r = []"
      by (cases "ns (searchRequest loc r cats)")
         (simp add: tierResults_def nearbySearch_promise_def)
    then have "tierLoop ns loc cats target (r # rs) st =
               tierLoop ns loc cats target rs (addPlaces (fst st) [], snd st + int (length ([] :: PlaceResult list)))"
      using tierLoop_step [OF False, of ns loc cats r rs] by (simp only:)
    then show ?thesis by (simp del: tierLoop.simps)
  qed
  have d: "detailLoop gd target ((pid, basicPlace) # rest) acc = detailLoop gd target rest acc"
    if "snd (gd \<lparr>placeId = pid, request_fields = detailFields\<rparr>) \<noteq> OK"
  proof (cases "target \<le> int (length acc)")
    case True
    then show ?thesis by (simp add: detailLoop_stop)
  next
    case False
    from that have "getDetails_promise gd pid =
        Inl (PlaceDetailsFailed (snd (gd \<lparr>placeId = pid, request_fields = detailFields\<rparr>)))"
      by (cases "gd \<lparr>placeId = pid, request_fields = detailFields\<rparr>")
         (simp add: getDetails_promise_def)
    with False show ?thesis by simp
  qed
  have e: "searchBusinesses h clock geocode ns gd params =
      Inl (GeocodingFailed (snd (geocode (search_location params))))"
    if "snd (geocode (search_location params)) \<noteq> Geocoder_OK"
    using that
    by (cases "geocode (search_location params)")
       (simp add: searchBusinesses_def filteredBusinesses_def geocode_promise_def Let_def)
  from a b c d e show ?thesis by blast
qed

theorem search_error_handling_witness:
  "nearbySearch_promise example_nearbySearch
     (searchRequest example_location 2000 (Some [''cafe''])) = Inr [] \<and>
   nearbySearch_promise example_nearbySearch
     (searchRequest example_location 10000 (Some [''cafe''])) =
     Inl (PlacesSearchFailed OVER_QUERY_LIMIT) \<and>
   tierLoop example_nearbySearch example_location (Some [''cafe'']) 3 [2000, 5000] ([], 0) =
     ([(''p1'', stub (Some ''p1'')), (''p2'', stub (Some ''p2''))], 2) \<and>
   tierLoop example_nearbySearch example_location (Some [''cafe'']) 3 [10000, 5000] ([], 0) =
     ([(''p1'', stub (Some ''p1'')), (''p2'', stub (Some ''p2''))], 2) \<and>
   detailLoop example_getDetails 3
     [(''p2'', stub (Some ''p2'')), (''p3'', stub (Some ''p3''))] [] = [place_cafe] \<and>
   searchBusinesses https_hostname example_clock example_geocode example_nearbySearch
     example_getDetails (example_params\<lparr>search_location := ''Nowhere''\<rparr>) =
     Inl (GeocodingFailed Geocoder_ZERO_RESULTS)"
proof -
  note T = search_error_handling [where ns = example_nearbySearch and loc = example_location
      and cats = "Some [''cafe'']" and target = 3 and gd = example_getDetails
      and geocode = example_geocode and h = https_hostname and clock = example_clock
      and st = "([], 0)" and acc = "[]" and pid = "''p2''" and basicPlace = "stub (Some ''p2'')"
      and rest = "[(''p3'', stub (Some ''p3''))]" and rs = "[5000]"
      and params = "example_params\<lparr>search_location := ''Nowhere''\<rparr>"]
  note A = T [where r = 2000 and request = "searchRequest example_location 2000 (Some [''cafe''])"]
  note B = T [where r = 10000
      and request = "searchRequest example_location 10000 (Some [''cafe''])"]
  have s1: "snd (example_nearbySearch (searchRequest example_location 2000 (Some [''cafe''])))
            = ZERO_RESULTS"
    by (simp add: example_nearbySearch_def searchRequest_def Let_def)
  have s2: "snd (example_nearbySearch (searchRequest example_location 10000 (Some [''cafe''])))
            = OVER_QUERY_LIMIT"
    by (simp add: example_nearbySearch_def searchRequest_def Let_def)
  have s3: "snd (example_getDetails \<lparr>placeId = ''p2'', request_fields = detailFields\<rparr>) = NOT_FOUND"
    by (simp add: example_getDetails_def)
  have s4: "snd (example_geocode (search_location (example_params\<lparr>search_location := ''Nowhere''\<rparr>)))
            = Geocoder_ZERO_RESULTS"
    by (simp add: example_geocode_def)
  have t: "tierLoop example_nearbySearch example_location (Some [''cafe'']) 3 [5000] ([], 0) =
     ([(''p1'', stub (Some ''p1'')), (''p2'', stub (Some ''p2''))], 2)"
    by code_simp
  have dl: "detailLoop example_getDetails 3 [(''p3'', stub (Some ''p3''))] [] = [place_cafe]"
    by code_simp
  from A s1 have w1: "nearbySearch_promise example_nearbySearch
     (searchRequest example_location 2000 (Some [''cafe''])) = Inr []"
    by simp
  from B s2 have w2: "nearbySearch_promise example_nearbySearch
     (searchRequest example_location 10000 (Some [''cafe''])) =
     Inl (PlacesSearchFailed OVER_QUERY_LIMIT)"
    by simp
  from A s1 t have w3: "tierLoop example_nearbySearch example_location (Some [''cafe'']) 3
     [2000, 5000] ([], 0) = ([(''p1'', stub (Some ''p1'')), (''p2'', stub (Some ''p2''))], 2)"
    by simp
  from B s2 t have w4: "tierLoop example_nearbySearch example_location (Some [''cafe'']) 3
     [10000, 5000] ([], 0) = ([(''p1'', stub (Some ''p1'')), (''p2'', stub (Some ''p2''))], 2)"
    by simp
  from A s3 dl have w5: "detailLoop example_getDetails 3
     [(''p2'', stub (Some ''p2'')), (''p3'', stub (Some ''p3''))] [] = [place_cafe]"
    by simp
  from A s4 have w6: "searchBusinesses https_hostname example_clock example_geocode
     example_nearbySearch example_getDetails (example_params\<lparr>search_location := ''Nowhere''\<rparr>) =
     Inl (GeocodingFailed Geocoder_ZERO_RESULTS)"
    by simp
  from w1 w2 w3 w4 w5 w6 show ?thesis by simp
qed

section \<open>The older searchBusinesses on the same inputs\<close>

text \<open>
  Where the older copy departs from the filter and the pagination proved above: without any
  filter it drops a business with a website of its own, it keeps the types of the exclusion
  list instead of dropping them, and it reports the page length and no further page.
\<close>

lemma legacy_filter_differs:
  "business_filter example_params business_cafe \<and>
   \<not> legacy_business_filter example_params business_cafe \<and>
   \<not> business_filter (example_params\<lparr>excludeWebsiteTypes := Some [facebook]\<rparr>) business_salon \<and>
   legacy_business_filter (example_params\<lparr>excludeWebsiteTypes := Some [facebook]\<rparr>)
     business_salon"
  by (simp add: business_filter_def legacy_business_filter_def array_includes_def
      example_params_def business_cafe_def business_salon_def)

lemma legacy_result_differs:
  "legacy_result (example_params\<lparr>excludeWebsiteTypes := Some [facebook, legitimate]\<rparr>)
     [business_salon, business_cafe, business_closed] =
   \<lparr>businesses = [business_salon], totalCount = 1, hasMore = False\<rparr>"
  by code_simp

end
